theory Spec2Isabelle
  imports Complex_Main
begin

section \<open>Tensors, modules and exceptions\<close>

text \<open>
  The agent of \<^verbatim>\<open>duckietown_rl/ddpg.py\<close> is embedded with explicit state passing.
  Numbers are real numbers: rounding of the 32-bit floats is not modelled.
  A raise of the Python code is a value \<open>Inl e\<close>; the state a raise leaves behind is
  not described.
\<close>

datatype error = AssertionError | TypeError | IndexError | RuntimeError | FileNotFoundError

text \<open>A tensor (or numpy array): its shape and its entries in row-major order.\<close>

record tensor =
  shape :: "nat list"
  data :: "real list"

text \<open>
  What \<^verbatim>\<open>torch.nn.Module\<close> keeps for a network: the \<^verbatim>\<open>training\<close> flag, the
  registered parameters and buffers (in the order of \<^verbatim>\<open>state_dict()\<close>), and the
  \<^verbatim>\<open>.grad\<close> slot of each parameter (no entry: \<^verbatim>\<open>None\<close>).
\<close>

datatype kind = Parameter | Buffer

type_synonym entry = "string \<times> kind \<times> tensor"

type_synonym state_dict = "(string \<times> tensor) list"

record nn_module =
  training :: bool
  entries :: "entry list"
  grad :: "string \<rightharpoonup> real list"

definition state_dict_of :: "nn_module \<Rightarrow> state_dict" where
  "state_dict_of m = map (\<lambda>(n, k, t). (n, t)) (entries m)"

definition parameters :: "nn_module \<Rightarrow> (string \<times> tensor) list" where
  "parameters m = map (\<lambda>(n, k, t). (n, t)) (filter (\<lambda>(n, k, t). k = Parameter) (entries m))"

definition buffers :: "nn_module \<Rightarrow> (string \<times> tensor) list" where
  "buffers m = map (\<lambda>(n, k, t). (n, t)) (filter (\<lambda>(n, k, t). k = Buffer) (entries m))"

text \<open>
  \<^verbatim>\<open>Module.load_state_dict(sd)\<close> with the default \<^verbatim>\<open>strict=True\<close>: a missing key, an
  unexpected key or a tensor of another shape raises; otherwise the values are copied
  into the module's own tensors, by name.
\<close>

definition load_entry :: "state_dict \<Rightarrow> entry \<Rightarrow> entry" where
  "load_entry sd e =
     (case e of (n, k, t) \<Rightarrow>
        (case map_of sd n of None \<Rightarrow> (n, k, t) | Some t' \<Rightarrow> (n, k, t\<lparr>data := data t'\<rparr>)))"

definition shape_clash :: "state_dict \<Rightarrow> entry \<Rightarrow> bool" where
  "shape_clash sd e =
     (case e of (n, k, t) \<Rightarrow>
        (case map_of sd n of None \<Rightarrow> False | Some t' \<Rightarrow> shape t' \<noteq> shape t))"

definition load_state_dict :: "nn_module \<Rightarrow> state_dict \<Rightarrow> error + nn_module" where
  "load_state_dict m sd =
     (if set (map fst sd) \<noteq> set (map fst (entries m)) \<or> list_ex (shape_clash sd) (entries m)
      then Inl RuntimeError
      else Inr (m\<lparr>entries := map (load_entry sd) (entries m)\<rparr>))"

section \<open>Layers and networks\<close>

text \<open>
  The constructors fix names and shapes; the initial values of the weights are drawn at
  random by the library, so they are an argument \<open>init\<close> (name and shape of a parameter
  to its values). The buffers of a batch normalisation start at 0, 1 and 0.
\<close>

type_synonym initializer = "string \<Rightarrow> nat list \<Rightarrow> real list"

definition new_parameter :: "string \<Rightarrow> nat list \<Rightarrow> initializer \<Rightarrow> entry" where
  "new_parameter nm shp init = (nm, Parameter, \<lparr>shape = shp, data = init nm shp\<rparr>)"

definition Linear :: "string \<Rightarrow> nat \<Rightarrow> nat \<Rightarrow> initializer \<Rightarrow> entry list" where
  "Linear nm n_in n_out init =
     [new_parameter (nm @ ''.weight'') [n_out, n_in] init,
      new_parameter (nm @ ''.bias'') [n_out] init]"

definition Conv2d :: "string \<Rightarrow> nat \<Rightarrow> nat \<Rightarrow> nat \<Rightarrow> initializer \<Rightarrow> entry list" where
  "Conv2d nm c_in c_out ksize init =
     [new_parameter (nm @ ''.weight'') [c_out, c_in, ksize, ksize] init,
      new_parameter (nm @ ''.bias'') [c_out] init]"

definition BatchNorm2d :: "string \<Rightarrow> nat \<Rightarrow> initializer \<Rightarrow> entry list" where
  "BatchNorm2d nm c init =
     [new_parameter (nm @ ''.weight'') [c] init,
      new_parameter (nm @ ''.bias'') [c] init,
      (nm @ ''.running_mean'', Buffer, \<lparr>shape = [c], data = replicate c 0\<rparr>),
      (nm @ ''.running_var'', Buffer, \<lparr>shape = [c], data = replicate c 1\<rparr>),
      (nm @ ''.num_batches_tracked'', Buffer, \<lparr>shape = [], data = [0]\<rparr>)]"

definition new_module :: "entry list \<Rightarrow> nn_module" where
  "new_module es = \<lparr>training = True, entries = es, grad = Map.empty\<rparr>"

datatype actor_class = ActorPID | ActorCNN

record actor_module =
  cls :: actor_class
  max_action :: real
  body :: nn_module

definition ActorPID_init :: "nat list \<Rightarrow> nat \<Rightarrow> real \<Rightarrow> initializer \<Rightarrow> actor_module" where
  "ActorPID_init state_dim action_dim max_act init =
     (let sd = fold (*) state_dim 1
      in \<lparr>cls = ActorPID, max_action = max_act,
          body = new_module (Linear ''l1'' sd 400 init @ Linear ''l2'' 400 300 init
                             @ Linear ''l3'' 300 action_dim init)\<rparr>)"

definition cnn_stack :: "initializer \<Rightarrow> entry list" where
  "cnn_stack init =
     Conv2d ''conv1'' 3 32 8 init @ Conv2d ''conv2'' 32 32 4 init
     @ Conv2d ''conv3'' 32 32 4 init @ Conv2d ''conv4'' 32 32 4 init
     @ BatchNorm2d ''bn1'' 32 init @ BatchNorm2d ''bn2'' 32 init
     @ BatchNorm2d ''bn3'' 32 init @ BatchNorm2d ''bn4'' 32 init"

definition ActorCNN_init :: "nat \<Rightarrow> real \<Rightarrow> initializer \<Rightarrow> actor_module" where
  "ActorCNN_init action_dim max_act init =
     (let flat_size = 32 * 9 * 14
      in \<lparr>cls = ActorCNN, max_action = max_act,
          body = new_module (cnn_stack init @ Linear ''lin1'' flat_size 512 init
                             @ Linear ''lin2'' 512 action_dim init)\<rparr>)"

definition CriticCNN_init :: "nat \<Rightarrow> initializer \<Rightarrow> nn_module" where
  "CriticCNN_init action_dim init =
     (let flat_size = 32 * 9 * 14
      in new_module (cnn_stack init @ Linear ''lin1'' flat_size 256 init
                     @ Linear ''lin2'' (256 + action_dim) 128 init
                     @ Linear ''lin3'' 128 1 init))"

section \<open>The agent\<close>

datatype net_id = Actor | ActorTarget | Critic | CriticTarget

text \<open>
  An optimizer holds references to the parameters it was built over (\<open>opt_params\<close>:
  the network that owns them), its learning rate and its per-parameter state.
\<close>

record optimizer =
  opt_params :: net_id
  lr :: real
  opt_state :: "string \<rightharpoonup> real list"

definition Adam :: "net_id \<Rightarrow> real \<Rightarrow> optimizer" where
  "Adam nid rate = \<lparr>opt_params = nid, lr = rate, opt_state = Map.empty\<rparr>"

record ddpg =
  state_dim :: "nat list"
  flat :: bool
  actor :: actor_module
  actor_target :: actor_module
  actor_optimizer :: optimizer
  critic :: nn_module
  critic_target :: nn_module
  critic_optimizer :: optimizer

text \<open>
  The file system holds the checkpoints: a path to the state dict saved there.
  \<^verbatim>\<open>torch.load\<close> raises on a path with no file.
\<close>

type_synonym filesystem = "string \<rightharpoonup> state_dict"

definition torch_load :: "filesystem \<Rightarrow> string \<Rightarrow> error + state_dict" where
  "torch_load fs path = (case fs path of None \<Rightarrow> Inl FileNotFoundError | Some sd \<Rightarrow> Inr sd)"

definition load_into :: "filesystem \<Rightarrow> string \<Rightarrow> nn_module \<Rightarrow> error + nn_module" where
  "load_into fs path m =
     (case torch_load fs path of Inl e \<Rightarrow> Inl e | Inr sd \<Rightarrow> load_state_dict m sd)"

text \<open>\<^verbatim>\<open>if critic_chkp:\<close> is taken for a path that is neither \<^verbatim>\<open>None\<close> nor empty.\<close>

definition truthy :: "string option \<Rightarrow> bool" where
  "truthy p = (case p of None \<Rightarrow> False | Some s \<Rightarrow> s \<noteq> [])"

definition DDPG_init ::
  "filesystem \<Rightarrow> (net_id \<Rightarrow> initializer) \<Rightarrow> nat list \<Rightarrow> nat \<Rightarrow> real \<Rightarrow> string
     \<Rightarrow> string option \<Rightarrow> error + ddpg" where
  "DDPG_init fs init sdim action_dim max_act net_type critic_chkp =
     (if net_type \<notin> {''cnn'', ''pid''} then Inl AssertionError
      else
        let (fl, a, a_tgt) =
              (if net_type = ''pid''
               then (False, ActorPID_init sdim action_dim max_act (init Actor),
                     ActorPID_init sdim action_dim max_act (init ActorTarget))
               else (False, ActorCNN_init action_dim max_act (init Actor),
                     ActorCNN_init action_dim max_act (init ActorTarget)))
        in case load_state_dict (body a_tgt) (state_dict_of (body a)) of
             Inl e \<Rightarrow> Inl e
           | Inr atb \<Rightarrow>
               (case (if truthy critic_chkp
                      then load_into fs (the critic_chkp) (CriticCNN_init action_dim (init Critic))
                      else Inr (CriticCNN_init action_dim (init Critic))) of
                  Inl e \<Rightarrow> Inl e
                | Inr c \<Rightarrow>
                    (case load_state_dict (CriticCNN_init action_dim (init CriticTarget))
                            (state_dict_of c) of
                       Inl e \<Rightarrow> Inl e
                     | Inr ct \<Rightarrow>
                         Inr \<lparr>state_dim = sdim, flat = fl,
                              actor = a, actor_target = a_tgt\<lparr>body := atb\<rparr>,
                              actor_optimizer = Adam Actor (1 / 10000),
                              critic = c, critic_target = ct,
                              critic_optimizer = Adam Critic (1 / 1000)\<rparr>)))"

section \<open>What the sources do not hold\<close>

text \<open>
  Modelled from the spec: \<^verbatim>\<open>Controller.angle_control_commands\<close> of \<^verbatim>\<open>controller.py\<close>,
  which is not among the sources. Section 4.1 of the spec gives it as a pure function
  of lateral distance, heading angle and throttle with no state and no failure; it is
  the field \<open>angle_control_commands\<close> below, applied to each row of a batch.

  The numeric kernels of the library are arguments of the model as well:
  \<^item> \<open>actor_net\<close>: the output of \<^verbatim>\<open>lin2\<close> in \<^verbatim>\<open>ActorCNN.forward\<close> (convolutions, batch
    normalisation, dropout with the random draw \<open>nz\<close>, linear layers), one row per
    observation; \<open>critic_net\<close>: the output of \<^verbatim>\<open>CriticCNN.forward\<close>, one value per row;
    both read the module (its parameters, buffers and mode) and may raise on a shape;
  \<^item> \<open>batch_stats\<close>: the new value of a running mean or variance after a batch;
  \<^item> \<open>grad_critic_loss\<close>, \<open>grad_actor_loss\<close>: the gradient of a loss for one parameter
    of one network;
  \<^item> \<open>adam_update\<close>: the new value of a parameter and of its optimizer state, from the
    learning rate, the old state, the old value and the gradient;
  \<^item> \<open>set_to_none\<close>: whether \<^verbatim>\<open>zero_grad()\<close> resets a gradient to \<^verbatim>\<open>None\<close> (the
    default of recent versions of the library) or fills it with zeros.
  A batch is what \<^verbatim>\<open>replay_buffer.sample\<close> returns: two tensors of observations, the
  actions as rows, and six columns with one value per transition.
\<close>

record batch =
  b_state :: tensor
  b_action :: "real list list"
  b_next_state :: tensor
  b_done :: "real list"
  b_reward :: "real list"
  b_dist :: "real list"
  b_angle :: "real list"
  b_next_dist :: "real list"
  b_next_angle :: "real list"

record numerics =
  angle_control_commands :: "real \<Rightarrow> real \<Rightarrow> real \<Rightarrow> real"
  actor_net :: "nn_module \<Rightarrow> nat \<Rightarrow> tensor \<Rightarrow> error + real list list"
  critic_net :: "nn_module \<Rightarrow> tensor \<Rightarrow> real list list \<Rightarrow> error + real list"
  batch_stats :: "nn_module \<Rightarrow> tensor \<Rightarrow> string \<Rightarrow> real list"
  grad_critic_loss :: "nn_module \<Rightarrow> batch \<Rightarrow> real list \<Rightarrow> net_id \<Rightarrow> string \<Rightarrow> real list"
  grad_actor_loss :: "nn_module \<Rightarrow> actor_module \<Rightarrow> batch \<Rightarrow> nat \<Rightarrow> net_id \<Rightarrow> string \<Rightarrow> real list"
  adam_update :: "real \<Rightarrow> real list option \<Rightarrow> real list \<Rightarrow> real list \<Rightarrow> real list \<times> real list"
  set_to_none :: bool

text \<open>
  A tensor under automatic differentiation: its value and the networks whose parameters
  are leaves of its graph. \<^verbatim>\<open>detach()\<close> and \<^verbatim>\<open>.data\<close> cut the graph; a tensor built
  from an array has none.
\<close>

record 'v tracked =
  val :: 'v
  graph :: "net_id set"

definition leaf :: "'v \<Rightarrow> 'v tracked" where
  "leaf v = \<lparr>val = v, graph = {}\<rparr>"

definition detach :: "'v tracked \<Rightarrow> 'v tracked" where
  "detach x = x\<lparr>graph := {}\<rparr>"

section \<open>The actors and the critic\<close>

definition sigm :: "real \<Rightarrow> real" where
  "sigm x = 1 / (1 + exp (- x))"

text \<open>
  A vector of the batch (\<^verbatim>\<open>dist.squeeze()\<close>) against \<open>n\<close> rows: it has \<open>n\<close> entries,
  or one entry that is broadcast; any other size raises.
\<close>

definition broadcast :: "nat \<Rightarrow> real list \<Rightarrow> real list option" where
  "broadcast n xs =
     (if length xs = n then Some xs
      else if length xs = 1 then Some (replicate n (hd xs))
      else None)"

text \<open>
  Lines 36-38 and 95-97: \<^verbatim>\<open>x = torch.zeros(x.shape[0], 2)\<close>, then
  \<^verbatim>\<open>x[:,0] = 0.5 * torch.ones_like(dist.squeeze())\<close>.
\<close>

definition pid_rows :: "tensor \<Rightarrow> real list \<Rightarrow> error + real list list" where
  "pid_rows x dists =
     (case shape x of
        [] \<Rightarrow> Inl IndexError
      | b # _ \<Rightarrow>
          (case broadcast b dists of
             None \<Rightarrow> Inl RuntimeError
           | Some d \<Rightarrow> Inr (map (\<lambda>v. [1 / 2 * 1, 0]) d)))"

text \<open>
  Lines 92-93: \<^verbatim>\<open>x[:, 0] = 0.5 + self.max_action * self.sigm(x[:, 0])\<close> and
  \<^verbatim>\<open>x[:, 1] = self.tanh(x[:, 1])\<close>. A batch is a list of rows; a row with fewer
  than two columns raises.
\<close>

definition squash_row :: "real \<Rightarrow> real list \<Rightarrow> real list" where
  "squash_row max_act r = (r[0 := 1 / 2 + max_act * sigm (r ! 0)])[1 := tanh (r ! 1)]"

definition squash :: "real \<Rightarrow> real list list \<Rightarrow> error + real list list" where
  "squash max_act x =
     (if list_ex (\<lambda>r. length r < 2) x then Inl IndexError
      else Inr (map (squash_row max_act) x))"

text \<open>
  Lines 41 and 100:
  \<^verbatim>\<open>x[:,1] += self.controller.angle_control_commands(dist.squeeze(), angle.squeeze(), x[:, 0])\<close>.
\<close>

definition heading_row :: "(real \<Rightarrow> real \<Rightarrow> real \<Rightarrow> real) \<Rightarrow> real list \<times> real \<times> real \<Rightarrow> real list" where
  "heading_row ctrl rdg = (case rdg of (r, d, g) \<Rightarrow> r[1 := r ! 1 + ctrl d g (r ! 0)])"

definition add_heading ::
  "(real \<Rightarrow> real \<Rightarrow> real \<Rightarrow> real) \<Rightarrow> real list \<Rightarrow> real list \<Rightarrow> real list list
     \<Rightarrow> error + real list list" where
  "add_heading ctrl dists angles x =
     (if list_ex (\<lambda>r. length r < 2) x then Inl IndexError
      else
        (case broadcast (length x) dists of
           None \<Rightarrow> Inl RuntimeError
         | Some d \<Rightarrow>
             (case broadcast (length x) angles of
                None \<Rightarrow> Inl RuntimeError
              | Some g \<Rightarrow> Inr (map (heading_row ctrl) (zip x (zip d g))))))"

text \<open>
  A batch normalisation in training mode updates its running statistics and counts the
  batch (\<^verbatim>\<open>num_batches_tracked\<close>) on every forward pass; in evaluation mode it reads them.
\<close>

definition bn_counters :: "string list" where
  "bn_counters = map (\<lambda>l. l @ ''.num_batches_tracked'') [''bn1'', ''bn2'', ''bn3'', ''bn4'']"

definition bn_track_entry :: "(string \<Rightarrow> real list) \<Rightarrow> entry \<Rightarrow> entry" where
  "bn_track_entry stats e =
     (case e of (n, k, t) \<Rightarrow>
        (case k of
           Parameter \<Rightarrow> (n, k, t)
         | Buffer \<Rightarrow>
             if n \<in> set bn_counters then (n, k, t\<lparr>data := map (\<lambda>c. c + 1) (data t)\<rparr>)
             else (n, k, t\<lparr>data := stats n\<rparr>)))"

definition track_running_stats :: "(string \<Rightarrow> real list) \<Rightarrow> nn_module \<Rightarrow> nn_module" where
  "track_running_stats stats m =
     (if training m then m\<lparr>entries := map (bn_track_entry stats) (entries m)\<rparr> else m)"

text \<open>\<^verbatim>\<open>ActorPID.forward(self, x, dist, angle)\<close>: the layers are not used.\<close>

definition ActorPID_forward ::
  "numerics \<Rightarrow> actor_module \<Rightarrow> tensor \<Rightarrow> real list \<Rightarrow> real list
     \<Rightarrow> error + (real list list) tracked \<times> actor_module" where
  "ActorPID_forward N a x dists angles =
     (case pid_rows x dists of
        Inl e \<Rightarrow> Inl e
      | Inr y \<Rightarrow>
          (case add_heading (angle_control_commands N) dists angles y of
             Inl e \<Rightarrow> Inl e
           | Inr z \<Rightarrow> Inr (leaf z, a)))"

text \<open>
  \<^verbatim>\<open>ActorCNN.forward(self, x, dist, angle, only_PID=False)\<close>. \<open>self\<close> names the network
  whose parameters enter the graph, \<open>nz\<close> is the random draw of the dropout.
\<close>

definition ActorCNN_head ::
  "numerics \<Rightarrow> net_id \<Rightarrow> actor_module \<Rightarrow> nat \<Rightarrow> tensor \<Rightarrow> real list \<Rightarrow> bool
     \<Rightarrow> error + (real list list) tracked \<times> actor_module" where
  "ActorCNN_head N self a nz x dists only_PID =
     (if \<not> only_PID then
        (case actor_net N (body a) nz x of
           Inl e \<Rightarrow> Inl e
         | Inr raw \<Rightarrow>
             (case squash (max_action a) raw of
                Inl e \<Rightarrow> Inl e
              | Inr y \<Rightarrow>
                  Inr (\<lparr>val = y, graph = {self}\<rparr>,
                       a\<lparr>body := track_running_stats (batch_stats N (body a) x) (body a)\<rparr>)))
      else
        (case pid_rows x dists of
           Inl e \<Rightarrow> Inl e
         | Inr y \<Rightarrow> Inr (leaf y, a)))"

definition ActorCNN_forward ::
  "numerics \<Rightarrow> net_id \<Rightarrow> actor_module \<Rightarrow> nat \<Rightarrow> tensor \<Rightarrow> real list \<Rightarrow> real list \<Rightarrow> bool
     \<Rightarrow> error + (real list list) tracked \<times> actor_module" where
  "ActorCNN_forward N self a nz x dists angles only_PID =
     (case ActorCNN_head N self a nz x dists only_PID of
        Inl e \<Rightarrow> Inl e
      | Inr (y, a') \<Rightarrow>
          (case add_heading (angle_control_commands N) dists angles (val y) of
             Inl e \<Rightarrow> Inl e
           | Inr z \<Rightarrow> Inr (y\<lparr>val := z\<rparr>, a')))"

text \<open>
  Calling the actor object: \<open>extra\<close> is the fourth positional argument, when the call
  passes one. \<^verbatim>\<open>ActorPID.forward\<close> has no fourth parameter.
\<close>

definition actor_call ::
  "numerics \<Rightarrow> net_id \<Rightarrow> actor_module \<Rightarrow> nat \<Rightarrow> tensor \<Rightarrow> real list \<Rightarrow> real list \<Rightarrow> bool option
     \<Rightarrow> error + (real list list) tracked \<times> actor_module" where
  "actor_call N self a nz x dists angles extra =
     (case cls a of
        ActorPID \<Rightarrow>
          (case extra of
             None \<Rightarrow> ActorPID_forward N a x dists angles
           | Some b \<Rightarrow> Inl TypeError)
      | ActorCNN \<Rightarrow>
          ActorCNN_forward N self a nz x dists angles (case extra of None \<Rightarrow> False | Some b \<Rightarrow> b))"

text \<open>\<^verbatim>\<open>CriticCNN.forward(self, states, actions)\<close>.\<close>

definition CriticCNN_forward ::
  "numerics \<Rightarrow> net_id \<Rightarrow> nn_module \<Rightarrow> tensor \<Rightarrow> (real list list) tracked
     \<Rightarrow> error + (real list) tracked \<times> nn_module" where
  "CriticCNN_forward N self m states actions =
     (case critic_net N m states (val actions) of
        Inl e \<Rightarrow> Inl e
      | Inr q \<Rightarrow>
          Inr (\<lparr>val = q, graph = insert self (graph actions)\<rparr>,
               track_running_stats (batch_stats N m states) m))"

section \<open>Prediction\<close>

text \<open>\<^verbatim>\<open>np.expand_dims(state, axis=0)\<close> and \<^verbatim>\<open>state.reshape(1, -1)\<close>.\<close>

definition expand_dims :: "tensor \<Rightarrow> tensor" where
  "expand_dims t = t\<lparr>shape := 1 # shape t\<rparr>"

definition reshape_flat :: "tensor \<Rightarrow> tensor" where
  "reshape_flat t = t\<lparr>shape := [1, length (data t)]\<rparr>"

definition to_batch :: "ddpg \<Rightarrow> tensor \<Rightarrow> tensor" where
  "to_batch ag state = (if flat ag then reshape_flat state else expand_dims state)"

text \<open>
  \<^verbatim>\<open>DDPG.predict(self, state, dist, angle, only_pid=False)\<close>. The result is the action,
  flattened, and the agent after the call.
\<close>

definition predict ::
  "numerics \<Rightarrow> ddpg \<Rightarrow> tensor \<Rightarrow> real list \<Rightarrow> real list \<Rightarrow> bool \<Rightarrow> nat
     \<Rightarrow> error + real list \<times> ddpg" where
  "predict N ag state dists angles only_pid nz =
     (case shape state of
        [] \<Rightarrow> Inl IndexError
      | c # _ \<Rightarrow>
          if c \<noteq> 3 then Inl AssertionError
          else
            (case actor_call N Actor (actor ag) nz (to_batch ag state) dists angles
                    (Some only_pid) of
               Inl e \<Rightarrow> Inl e
             | Inr (x, a') \<Rightarrow> Inr (concat (val (detach x)), ag\<lparr>actor := a'\<rparr>)))"

section \<open>Training\<close>

text \<open>
  Arithmetic on the columns of a batch, entry by entry. Two columns of different lengths
  raise; broadcasting between columns of other shapes is not modelled.
\<close>

definition ew ::
  "(real \<Rightarrow> real \<Rightarrow> real) \<Rightarrow> (real list) tracked \<Rightarrow> (real list) tracked
     \<Rightarrow> error + (real list) tracked" where
  "ew f x y =
     (if length (val x) = length (val y)
      then Inr \<lparr>val = map2 f (val x) (val y), graph = graph x \<union> graph y\<rparr>
      else Inl RuntimeError)"

definition scale :: "real \<Rightarrow> (real list) tracked \<Rightarrow> (real list) tracked" where
  "scale c x = x\<lparr>val := map (\<lambda>v. v * c) (val x)\<rparr>"

definition mean_list :: "real list \<Rightarrow> real" where
  "mean_list xs = sum_list xs / real (length xs)"

definition mse_loss :: "(real list) tracked \<Rightarrow> (real list) tracked \<Rightarrow> real tracked" where
  "mse_loss x y =
     \<lparr>val = mean_list (map2 (\<lambda>a b. (a - b) ^ 2) (val x) (val y)), graph = graph x \<union> graph y\<rparr>"

text \<open>
  Lines 211, 212 and 220-222: \<^verbatim>\<open>done = 1 - sample["done"]\<close>, then
  \<^verbatim>\<open>target_Q = self.critic_target(next_state, self.actor_target(next_state, next_dist, next_angle))\<close>
  and \<^verbatim>\<open>target_Q = reward + (done * discount * target_Q).detach()\<close>.
\<close>

definition target_Q ::
  "numerics \<Rightarrow> real \<Rightarrow> batch \<Rightarrow> nat \<Rightarrow> ddpg \<Rightarrow> error + (real list) tracked \<times> ddpg" where
  "target_Q N discount smp nz ag =
     (let not_done = leaf (map (\<lambda>d. 1 - d) (b_done smp));
          reward = leaf (b_reward smp)
      in case actor_call N ActorTarget (actor_target ag) nz (b_next_state smp)
                (b_next_dist smp) (b_next_angle smp) None of
           Inl e \<Rightarrow> Inl e
         | Inr (u, a') \<Rightarrow>
             (case CriticCNN_forward N CriticTarget (critic_target ag) (b_next_state smp) u of
                Inl e \<Rightarrow> Inl e
              | Inr (q, c') \<Rightarrow>
                  (case ew (*) (scale discount not_done) q of
                     Inl e \<Rightarrow> Inl e
                   | Inr p \<Rightarrow>
                       (case ew (+) reward (detach p) of
                          Inl e \<Rightarrow> Inl e
                        | Inr t \<Rightarrow> Inr (t, ag\<lparr>actor_target := a', critic_target := c'\<rparr>)))))"

text \<open>
  The four networks by name. \<^verbatim>\<open>loss.backward()\<close> adds a gradient to every parameter
  of every network in the graph of the loss, and raises when the graph is empty.
\<close>

definition get_module :: "net_id \<Rightarrow> ddpg \<Rightarrow> nn_module" where
  "get_module nid ag =
     (case nid of
        Actor \<Rightarrow> body (actor ag)
      | ActorTarget \<Rightarrow> body (actor_target ag)
      | Critic \<Rightarrow> critic ag
      | CriticTarget \<Rightarrow> critic_target ag)"

definition set_module :: "net_id \<Rightarrow> nn_module \<Rightarrow> ddpg \<Rightarrow> ddpg" where
  "set_module nid m ag =
     (case nid of
        Actor \<Rightarrow> ag\<lparr>actor := (actor ag)\<lparr>body := m\<rparr>\<rparr>
      | ActorTarget \<Rightarrow> ag\<lparr>actor_target := (actor_target ag)\<lparr>body := m\<rparr>\<rparr>
      | Critic \<Rightarrow> ag\<lparr>critic := m\<rparr>
      | CriticTarget \<Rightarrow> ag\<lparr>critic_target := m\<rparr>)"

definition accumulate :: "(string \<Rightarrow> real list) \<Rightarrow> nn_module \<Rightarrow> nn_module" where
  "accumulate g m =
     m\<lparr>grad := (\<lambda>n. if n \<in> fst ` set (parameters m)
                     then Some (case grad m n of None \<Rightarrow> g n | Some old \<Rightarrow> map2 (+) old (g n))
                     else grad m n)\<rparr>"

definition backward_into :: "(net_id \<Rightarrow> string \<Rightarrow> real list) \<Rightarrow> net_id set \<Rightarrow> net_id \<Rightarrow> ddpg \<Rightarrow> ddpg" where
  "backward_into g leaves nid ag =
     (if nid \<in> leaves then set_module nid (accumulate (g nid) (get_module nid ag)) ag else ag)"

definition backward :: "(net_id \<Rightarrow> string \<Rightarrow> real list) \<Rightarrow> real tracked \<Rightarrow> ddpg \<Rightarrow> error + ddpg" where
  "backward g loss ag =
     (if graph loss = {} then Inl RuntimeError
      else Inr (fold (backward_into g (graph loss)) [Actor, ActorTarget, Critic, CriticTarget] ag))"

text \<open>
  \<^verbatim>\<open>optimizer.zero_grad()\<close> and \<^verbatim>\<open>optimizer.step()\<close> act on the parameters the optimizer
  was built over; a step skips a parameter whose gradient is \<^verbatim>\<open>None\<close>.
\<close>

definition zero_grad :: "bool \<Rightarrow> nn_module \<Rightarrow> nn_module" where
  "zero_grad to_none m =
     m\<lparr>grad := (if to_none then Map.empty else map_option (map (\<lambda>v. 0)) \<circ> grad m)\<rparr>"

definition step_entry :: "numerics \<Rightarrow> optimizer \<Rightarrow> (string \<rightharpoonup> real list) \<Rightarrow> entry \<Rightarrow> entry" where
  "step_entry N opt gr e =
     (case e of (n, k, t) \<Rightarrow>
        (case k of
           Buffer \<Rightarrow> (n, k, t)
         | Parameter \<Rightarrow>
             (case gr n of
                None \<Rightarrow> (n, k, t)
              | Some g \<Rightarrow>
                  (n, k, t\<lparr>data := fst (adam_update N (lr opt) (opt_state opt n) (data t) g)\<rparr>))))"

definition step_state :: "numerics \<Rightarrow> optimizer \<Rightarrow> nn_module \<Rightarrow> optimizer" where
  "step_state N opt m =
     opt\<lparr>opt_state := (\<lambda>n. case map_of (parameters m) n of
                             None \<Rightarrow> opt_state opt n
                           | Some t \<Rightarrow>
                               (case grad m n of
                                  None \<Rightarrow> opt_state opt n
                                | Some g \<Rightarrow>
                                    Some (snd (adam_update N (lr opt) (opt_state opt n) (data t) g))))\<rparr>"

definition step_module :: "numerics \<Rightarrow> optimizer \<Rightarrow> nn_module \<Rightarrow> nn_module" where
  "step_module N opt m = m\<lparr>entries := map (step_entry N opt (grad m)) (entries m)\<rparr>"

definition opt_zero_grad :: "numerics \<Rightarrow> optimizer \<Rightarrow> ddpg \<Rightarrow> ddpg" where
  "opt_zero_grad N opt ag =
     set_module (opt_params opt) (zero_grad (set_to_none N) (get_module (opt_params opt) ag)) ag"

definition opt_step :: "numerics \<Rightarrow> optimizer \<Rightarrow> ddpg \<Rightarrow> ddpg" where
  "opt_step N opt ag =
     set_module (opt_params opt) (step_module N opt (get_module (opt_params opt) ag)) ag"

text \<open>
  Lines 224-233: the current estimate, the critic loss, and
  \<^verbatim>\<open>self.critic_optimizer.zero_grad(); critic_loss.backward(); self.critic_optimizer.step()\<close>.
\<close>

definition critic_step :: "numerics \<Rightarrow> ddpg \<Rightarrow> ddpg" where
  "critic_step N ag =
     (opt_step N (critic_optimizer ag) ag)
       \<lparr>critic_optimizer :=
          step_state N (critic_optimizer ag) (get_module (opt_params (critic_optimizer ag)) ag)\<rparr>"

definition critic_backward :: "numerics \<Rightarrow> real \<Rightarrow> batch \<Rightarrow> nat \<Rightarrow> ddpg \<Rightarrow> error + ddpg" where
  "critic_backward N discount smp nz ag =
     (case target_Q N discount smp nz ag of
        Inl e \<Rightarrow> Inl e
      | Inr (tq, ag1) \<Rightarrow>
          (case CriticCNN_forward N Critic (critic ag1) (b_state smp) (leaf (b_action smp)) of
             Inl e \<Rightarrow> Inl e
           | Inr (current_Q, c') \<Rightarrow>
               backward (grad_critic_loss N (critic ag1) smp (val tq)) (mse_loss current_Q tq)
                 (opt_zero_grad N (critic_optimizer ag1) (ag1\<lparr>critic := c'\<rparr>))))"

definition update_critic :: "numerics \<Rightarrow> real \<Rightarrow> batch \<Rightarrow> nat \<Rightarrow> ddpg \<Rightarrow> error + ddpg" where
  "update_critic N discount smp nz ag =
     (case critic_backward N discount smp nz ag of
        Inl e \<Rightarrow> Inl e
      | Inr ag1 \<Rightarrow> Inr (critic_step N ag1))"

text \<open>
  Lines 235-241: \<^verbatim>\<open>actor_loss = -self.critic(state, self.actor(state, dist, angle)).mean()\<close>
  and \<^verbatim>\<open>self.actor_optimizer.zero_grad(); actor_loss.backward(); self.actor_optimizer.step()\<close>.
\<close>

definition actor_step :: "numerics \<Rightarrow> ddpg \<Rightarrow> ddpg" where
  "actor_step N ag =
     (opt_step N (actor_optimizer ag) ag)
       \<lparr>actor_optimizer :=
          step_state N (actor_optimizer ag) (get_module (opt_params (actor_optimizer ag)) ag)\<rparr>"

definition actor_loss_of :: "(real list) tracked \<Rightarrow> real tracked" where
  "actor_loss_of q = \<lparr>val = - mean_list (val q), graph = graph q\<rparr>"

definition actor_backward :: "numerics \<Rightarrow> batch \<Rightarrow> nat \<Rightarrow> ddpg \<Rightarrow> error + ddpg" where
  "actor_backward N smp nz ag =
     (case actor_call N Actor (actor ag) nz (b_state smp) (b_dist smp) (b_angle smp) None of
        Inl e \<Rightarrow> Inl e
      | Inr (u, a') \<Rightarrow>
          (case CriticCNN_forward N Critic (critic ag) (b_state smp) u of
             Inl e \<Rightarrow> Inl e
           | Inr (q, c') \<Rightarrow>
               backward (grad_actor_loss N (critic ag) (actor ag) smp nz) (actor_loss_of q)
                 (opt_zero_grad N (actor_optimizer ag) (ag\<lparr>actor := a', critic := c'\<rparr>))))"

definition update_actor :: "numerics \<Rightarrow> batch \<Rightarrow> nat \<Rightarrow> ddpg \<Rightarrow> error + ddpg" where
  "update_actor N smp nz ag =
     (case actor_backward N smp nz ag of
        Inl e \<Rightarrow> Inl e
      | Inr ag1 \<Rightarrow> Inr (actor_step N ag1))"

text \<open>
  Lines 243-248: for each pair of \<^verbatim>\<open>zip(live.parameters(), target.parameters())\<close>,
  \<^verbatim>\<open>target_param.data.copy_(tau * param.data + (1 - tau) * target_param.data)\<close>.
  The buffers of the target are not parameters and stay.
\<close>

definition blend :: "real \<Rightarrow> tensor \<Rightarrow> tensor \<Rightarrow> tensor" where
  "blend tau p t = t\<lparr>data := map2 (\<lambda>x y. tau * x + (1 - tau) * y) (data p) (data t)\<rparr>"

fun soft_update :: "real \<Rightarrow> (string \<times> tensor) list \<Rightarrow> entry list \<Rightarrow> entry list" where
  "soft_update tau ps [] = []"
| "soft_update tau ps ((n, Buffer, t) # es) = (n, Buffer, t) # soft_update tau ps es"
| "soft_update tau [] ((n, Parameter, t) # es) = (n, Parameter, t) # es"
| "soft_update tau (p # ps) ((n, Parameter, t) # es) =
     (n, Parameter, blend tau (snd p) t) # soft_update tau ps es"

definition soft_update_module :: "real \<Rightarrow> nn_module \<Rightarrow> nn_module \<Rightarrow> nn_module" where
  "soft_update_module tau live target =
     target\<lparr>entries := soft_update tau (parameters live) (entries target)\<rparr>"

definition soft_updates :: "real \<Rightarrow> ddpg \<Rightarrow> ddpg" where
  "soft_updates tau ag =
     ag\<lparr>critic_target := soft_update_module tau (critic ag) (critic_target ag),
        actor_target :=
          (actor_target ag)\<lparr>body := soft_update_module tau (body (actor ag)) (body (actor_target ag))\<rparr>\<rparr>"

text \<open>
  The replay buffer is not among the sources. \<^verbatim>\<open>replay_buffer.sample(batch_size, flat=...)\<close>
  is a function of the number of the call and of its two arguments. \<open>nz\<close> gives the two
  dropout draws of an iteration (target actor, live actor).
\<close>

type_synonym replay_buffer = "nat \<Rightarrow> nat \<Rightarrow> bool \<Rightarrow> batch"

definition sample_call :: "replay_buffer \<Rightarrow> nat \<Rightarrow> nat \<Rightarrow> ddpg \<Rightarrow> batch" where
  "sample_call rb it batch_size ag = rb it batch_size (flat ag)"

definition train_iteration ::
  "numerics \<Rightarrow> replay_buffer \<Rightarrow> nat \<Rightarrow> real \<Rightarrow> real \<Rightarrow> (nat \<Rightarrow> nat \<times> nat) \<Rightarrow> nat \<Rightarrow> ddpg
     \<Rightarrow> error + ddpg" where
  "train_iteration N rb batch_size discount tau nz it ag =
     (let smp = sample_call rb it batch_size ag
      in case update_critic N discount smp (fst (nz it)) ag of
           Inl e \<Rightarrow> Inl e
         | Inr ag1 \<Rightarrow>
             (case update_actor N smp (snd (nz it)) ag1 of
                Inl e \<Rightarrow> Inl e
              | Inr ag2 \<Rightarrow> Inr (soft_updates tau ag2)))"

text \<open>\<^verbatim>\<open>for it in range(iterations)\<close>: \<open>k\<close> iterations are left, the next one is \<open>it\<close>.\<close>

fun train_loop ::
  "numerics \<Rightarrow> replay_buffer \<Rightarrow> nat \<Rightarrow> real \<Rightarrow> real \<Rightarrow> (nat \<Rightarrow> nat \<times> nat) \<Rightarrow> nat \<Rightarrow> nat \<Rightarrow> ddpg
     \<Rightarrow> error + ddpg" where
  "train_loop N rb batch_size discount tau nz 0 it ag = Inr ag"
| "train_loop N rb batch_size discount tau nz (Suc k) it ag =
     (case train_iteration N rb batch_size discount tau nz it ag of
        Inl e \<Rightarrow> Inl e
      | Inr ag' \<Rightarrow> train_loop N rb batch_size discount tau nz k (Suc it) ag')"

definition train ::
  "numerics \<Rightarrow> replay_buffer \<Rightarrow> nat \<Rightarrow> nat \<Rightarrow> real \<Rightarrow> real \<Rightarrow> (nat \<Rightarrow> nat \<times> nat) \<Rightarrow> ddpg
     \<Rightarrow> error + ddpg" where
  "train N rb iterations batch_size discount tau nz ag =
     train_loop N rb batch_size discount tau nz iterations 0 ag"

section \<open>Checkpoints\<close>

text \<open>
  \<^verbatim>\<open>'{}/{}_actor.pth'.format(directory, filename)\<close> and its critic twin; \<^verbatim>\<open>torch.save\<close>
  writes the state dict at the path. Directories are not modelled.
\<close>

definition actor_path :: "string \<Rightarrow> string \<Rightarrow> string" where
  "actor_path directory filename = directory @ ''/'' @ filename @ ''_actor.pth''"

definition critic_path :: "string \<Rightarrow> string \<Rightarrow> string" where
  "critic_path directory filename = directory @ ''/'' @ filename @ ''_critic.pth''"

definition save :: "ddpg \<Rightarrow> string \<Rightarrow> string \<Rightarrow> filesystem \<Rightarrow> filesystem" where
  "save ag filename directory fs =
     (fs(actor_path directory filename \<mapsto> state_dict_of (body (actor ag))))
       (critic_path directory filename \<mapsto> state_dict_of (critic ag))"

definition load :: "ddpg \<Rightarrow> string \<Rightarrow> string \<Rightarrow> filesystem \<Rightarrow> error + ddpg" where
  "load ag filename directory fs =
     (case load_into fs (actor_path directory filename) (body (actor ag)) of
        Inl e \<Rightarrow> Inl e
      | Inr ab \<Rightarrow>
          (case load_into fs (critic_path directory filename) (critic ag) of
             Inl e \<Rightarrow> Inl e
           | Inr c \<Rightarrow> Inr (ag\<lparr>actor := (actor ag)\<lparr>body := ab\<rparr>, critic := c\<rparr>)))"

section \<open>The agents a program can hold\<close>

text \<open>
  An agent changes through its own methods only (\<^verbatim>\<open>save\<close> changes the file system,
  not the agent): \<open>later ag0 ag\<close> when \<open>ag\<close> is \<open>ag0\<close> after any number of calls that
  returned.
\<close>

inductive later :: "ddpg \<Rightarrow> ddpg \<Rightarrow> bool" where
  same: "later ag ag"
| predicted: "later ag0 ag \<Longrightarrow> predict N ag state dists angles only_pid nz = Inr (act, ag')
     \<Longrightarrow> later ag0 ag'"
| trained: "later ag0 ag \<Longrightarrow> train N rb iterations batch_size discount tau nzs ag = Inr ag'
     \<Longrightarrow> later ag0 ag'"
| loaded: "later ag0 ag \<Longrightarrow> load ag filename directory fs = Inr ag' \<Longrightarrow> later ag0 ag'"

text \<open>The architecture of a module: names, kinds and shapes, in order.\<close>

definition arch :: "nn_module \<Rightarrow> (string \<times> kind \<times> nat list) list" where
  "arch m = map (\<lambda>(n, k, t). (n, k, shape t)) (entries m)"

text \<open>
  What no method of the agent writes: the flag, the classes of the two actors, the
  network each optimizer refers to, and the architecture of the four networks.
\<close>

record fixed_part =
  fx_flat :: bool
  fx_actor_cls :: actor_class
  fx_actor_target_cls :: actor_class
  fx_actor_opt :: net_id
  fx_critic_opt :: net_id
  fx_archs :: "net_id \<Rightarrow> (string \<times> kind \<times> nat list) list"

definition fixed :: "ddpg \<Rightarrow> fixed_part" where
  "fixed ag =
     \<lparr>fx_flat = flat ag, fx_actor_cls = cls (actor ag),
      fx_actor_target_cls = cls (actor_target ag),
      fx_actor_opt = opt_params (actor_optimizer ag),
      fx_critic_opt = opt_params (critic_optimizer ag),
      fx_archs = (\<lambda>nid. arch (get_module nid ag))\<rparr>"

text \<open>The actor object that either branch of the constructor builds.\<close>

definition fresh_actor :: "string \<Rightarrow> nat list \<Rightarrow> nat \<Rightarrow> real \<Rightarrow> initializer \<Rightarrow> actor_module" where
  "fresh_actor net_type sdim action_dim max_act init =
     (if net_type = ''pid'' then ActorPID_init sdim action_dim max_act init
      else ActorCNN_init action_dim max_act init)"

text \<open>The critic after the optional load of a checkpoint (lines 179-181).\<close>

definition fresh_critic :: "filesystem \<Rightarrow> nat \<Rightarrow> initializer \<Rightarrow> string option \<Rightarrow> error + nn_module" where
  "fresh_critic fs action_dim init critic_chkp =
     (if truthy critic_chkp then load_into fs (the critic_chkp) (CriticCNN_init action_dim init)
      else Inr (CriticCNN_init action_dim init))"

section \<open>A concrete agent\<close>

text \<open>
  An agent for camera images of 120 by 160 pixels: state dimension (3, 120, 160),
  two action components, \<^verbatim>\<open>max_action = 1\<close>, the visual policy, and a critic read from
  a checkpoint. Each network starts from constant weights of its own.
\<close>

definition example_init :: "net_id \<Rightarrow> initializer" where
  "example_init nid nm shp =
     replicate (prod_list shp)
       (case nid of Actor \<Rightarrow> 1 | ActorTarget \<Rightarrow> 2 | Critic \<Rightarrow> 3 | CriticTarget \<Rightarrow> 4)"

definition example_fs :: filesystem where
  "example_fs =
     [''critic.pth'' \<mapsto> state_dict_of (CriticCNN_init 2 (\<lambda>nm shp. replicate (prod_list shp) 5))]"

definition example_agent :: ddpg where
  "example_agent =
     projr (DDPG_init example_fs example_init [3, 120, 160] 2 1 ''cnn'' (Some ''critic.pth''))"

text \<open>The same agent with the controller-only actor and no checkpoint.\<close>

definition example_pid_agent :: ddpg where
  "example_pid_agent =
     projr (DDPG_init Map.empty example_init [3, 120, 160] 2 1 ''pid'' None)"

text \<open>
  Numeric kernels to run the agent with: a proportional steering law, an actor network
  that answers zero and a critic network that answers 2 for every row, and plain
  gradient descent in place of Adam.
\<close>

definition example_numerics :: numerics where
  "example_numerics =
     \<lparr>angle_control_commands = (\<lambda>d g v. 6 * d + 2 * g),
      actor_net = (\<lambda>m nz x. Inr (replicate (hd (shape x)) [0, 0])),
      critic_net = (\<lambda>m x u. Inr (replicate (length u) 2)),
      batch_stats = (\<lambda>m x n. replicate 32 (1 / 10)),
      grad_critic_loss = (\<lambda>m b t nid n. [1]),
      grad_actor_loss = (\<lambda>m a b nz nid n. [1]),
      adam_update = (\<lambda>rate st p g. (map2 (\<lambda>x y. x - rate * y) p g, [1])),
      set_to_none = True\<rparr>"

definition example_obs :: tensor where
  "example_obs = \<lparr>shape = [3, 120, 160], data = replicate (3 * 120 * 160) 0\<rparr>"

text \<open>
  A replay buffer that always answers with the same batch of two transitions, the second
  of which ends its episode.
\<close>

definition example_batch :: batch where
  "example_batch =
     \<lparr>b_state = \<lparr>shape = [2, 3, 120, 160], data = replicate (2 * 3 * 120 * 160) 0\<rparr>,
      b_action = [[1, 0], [1, 1 / 2]],
      b_next_state = \<lparr>shape = [2, 3, 120, 160], data = replicate (2 * 3 * 120 * 160) 0\<rparr>,
      b_done = [0, 1], b_reward = [1, 3],
      b_dist = [1 / 2, 0], b_angle = [1 / 4, 0],
      b_next_dist = [1 / 4, 0], b_next_angle = [0, 0]\<rparr>"

definition example_rb :: replay_buffer where
  "example_rb it batch_size fl = example_batch"

section \<open>Loading a state dict\<close>

lemma load_entry_self:
  assumes "distinct (map fst es)" and "(n, k, t) \<in> set es" and "shape t0 = shape t"
  shows "load_entry (map (\<lambda>(n, k, t). (n, t)) es) (n, k, t0) = (n, k, t)"
proof -
  have "distinct (map fst (map (\<lambda>(n, k, t). (n, t)) es))"
    using assms(1) by (simp add: comp_def case_prod_unfold)
  moreover have "(n, t) \<in> set (map (\<lambda>(n, k, t). (n, t)) es)"
    using assms(2) by force
  ultimately have "map_of (map (\<lambda>(n, k, t). (n, t)) es) n = Some t"
    by (rule map_of_is_SomeI)
  then show ?thesis
    using assms(3) by (simp add: load_entry_def)
qed

lemma tensor_data_update_eq:
  "shape (t0::tensor) = shape t \<Longrightarrow> t0\<lparr>data := data t\<rparr> = t"
  by simp

lemma arch_names: "arch m = arch m' \<Longrightarrow> map fst (entries m) = map fst (entries m')"
proof -
  assume "arch m = arch m'"
  then have "map fst (arch m) = map fst (arch m')" by simp
  then show ?thesis by (simp add: arch_def comp_def case_prod_unfold)
qed

lemma load_entries_same_arch:
  assumes "map (\<lambda>(n, k, t). (n, k, shape t)) es0 = map (\<lambda>(n, k, t). (n, k, shape t)) es"
    and "distinct (map fst es)"
  shows "map (load_entry (map (\<lambda>(n, k, t). (n, t)) es)) es0 = es"
proof (rule nth_equalityI)
  have len: "length es0 = length es"
    using assms(1) by (metis length_map)
  show "length (map (load_entry (map (\<lambda>(n, k, t). (n, t)) es)) es0) = length es"
    using len by simp
  fix i
  assume "i < length (map (load_entry (map (\<lambda>(n, k, t). (n, t)) es)) es0)"
  then have i: "i < length es" "i < length es0" using len by simp_all
  obtain n k t where e: "es ! i = (n, k, t)" by (cases "es ! i") auto
  obtain n0 k0 t0 where e0: "es0 ! i = (n0, k0, t0)" by (cases "es0 ! i") auto
  have "map (\<lambda>(n, k, t). (n, k, shape t)) es0 ! i = map (\<lambda>(n, k, t). (n, k, shape t)) es ! i"
    using assms(1) by simp
  then have same: "n0 = n" "k0 = k" "shape t0 = shape t"
    using i e e0 by simp_all
  have "(n, k, t) \<in> set es" using i e by (metis nth_mem)
  then have "load_entry (map (\<lambda>(n, k, t). (n, t)) es) (n, k, t0) = (n, k, t)"
    using assms(2) same(3) by (simp add: load_entry_self)
  then show "map (load_entry (map (\<lambda>(n, k, t). (n, t)) es)) es0 ! i = es ! i"
    using i e e0 same by simp
qed

lemma no_clash_same_arch:
  assumes "map (\<lambda>(n, k, t). (n, k, shape t)) es0 = map (\<lambda>(n, k, t). (n, k, shape t)) es"
    and "distinct (map fst es)"
  shows "\<not> list_ex (shape_clash (map (\<lambda>(n, k, t). (n, t)) es)) es0"
proof
  let ?sd = "map (\<lambda>(n, k, t). (n, t)) es"
  assume "list_ex (shape_clash ?sd) es0"
  then obtain e0 where e0: "e0 \<in> set es0" "shape_clash ?sd e0"
    by (auto simp: list_ex_iff)
  then obtain i where i: "i < length es0" "es0 ! i = e0"
    by (auto simp: in_set_conv_nth)
  have len: "length es0 = length es"
    using assms(1) by (metis length_map)
  obtain n k t where e: "es ! i = (n, k, t)" by (cases "es ! i") auto
  obtain n0 k0 t0 where e0': "e0 = (n0, k0, t0)" by (cases e0) auto
  have "map (\<lambda>(n, k, t). (n, k, shape t)) es0 ! i = map (\<lambda>(n, k, t). (n, k, shape t)) es ! i"
    using assms(1) by simp
  then have same: "n0 = n" "k0 = k" "shape t0 = shape t"
    using i len e e0' by simp_all
  have "distinct (map fst ?sd)"
    using assms(2) by (simp add: comp_def case_prod_unfold)
  moreover have "(n, t) \<in> set ?sd"
    using i len e by (metis (no_types, lifting) nth_mem image_eqI set_map case_prod_conv)
  ultimately have "map_of ?sd n = Some t" by (rule map_of_is_SomeI)
  then show False using e0(2) e0' same by (simp add: shape_clash_def)
qed

lemma load_state_dict_same_arch:
  assumes "arch tgt = arch src" and "distinct (map fst (entries src))"
  shows "load_state_dict tgt (state_dict_of src) = Inr (tgt\<lparr>entries := entries src\<rparr>)"
proof -
  have a: "map (\<lambda>(n, k, t). (n, k, shape t)) (entries tgt)
      = map (\<lambda>(n, k, t). (n, k, shape t)) (entries src)"
    using assms(1) by (simp add: arch_def)
  have names: "map fst (state_dict_of src) = map fst (entries tgt)"
    using arch_names[OF assms(1)] by (simp add: state_dict_of_def comp_def case_prod_unfold)
  show ?thesis
    using load_entries_same_arch[OF a assms(2)] no_clash_same_arch[OF a assms(2)] names
    by (simp add: load_state_dict_def state_dict_of_def)
qed


lemmas layer_defs = new_parameter_def Linear_def Conv2d_def BatchNorm2d_def cnn_stack_def new_module_def

lemma arch_ActorCNN_init:
  "arch (body (ActorCNN_init ad ma i1)) = arch (body (ActorCNN_init ad ma i2))"
  by (simp add: ActorCNN_init_def arch_def layer_defs)

lemma arch_ActorPID_init:
  "arch (body (ActorPID_init sd ad ma i1)) = arch (body (ActorPID_init sd ad ma i2))"
  by (simp add: ActorPID_init_def arch_def layer_defs Let_def)

lemma arch_CriticCNN_init:
  "arch (CriticCNN_init ad i1) = arch (CriticCNN_init ad i2)"
  by (simp add: CriticCNN_init_def arch_def layer_defs)

lemma distinct_ActorCNN_init: "distinct (map fst (entries (body (ActorCNN_init ad ma i))))"
  by (simp add: ActorCNN_init_def layer_defs)

lemma distinct_ActorPID_init: "distinct (map fst (entries (body (ActorPID_init sd ad ma i))))"
  by (simp add: ActorPID_init_def layer_defs Let_def)

lemma distinct_CriticCNN_init: "distinct (map fst (entries (CriticCNN_init ad i)))"
  by (simp add: CriticCNN_init_def layer_defs)

lemma load_entry_arch:
  "\<not> shape_clash sd e \<Longrightarrow>
   (\<lambda>(n, k, t). (n, k, shape t)) (load_entry sd e) = (\<lambda>(n, k, t). (n, k, shape t)) e"
  by (cases e) (simp add: load_entry_def shape_clash_def split: option.splits)

lemma load_state_dict_entries:
  "load_state_dict m sd = Inr m' \<Longrightarrow> m' = m\<lparr>entries := map (load_entry sd) (entries m)\<rparr>"
  by (auto simp: load_state_dict_def split: if_splits)

lemma load_state_dict_arch:
  assumes "load_state_dict m sd = Inr m'"
  shows "arch m' = arch m"
proof -
  have nc: "\<forall>e \<in> set (entries m). \<not> shape_clash sd e"
    using assms by (auto simp: load_state_dict_def list_ex_iff split: if_splits)
  have "map ((\<lambda>(n, k, t). (n, k, shape t)) \<circ> load_entry sd) (entries m)
      = map (\<lambda>(n, k, t). (n, k, shape t)) (entries m)"
    using nc by (intro map_cong refl) (simp add: load_entry_arch)
  then show ?thesis
    using load_state_dict_entries[OF assms] by (simp add: arch_def)
qed

lemma load_state_dict_names:
  "load_state_dict m sd = Inr m' \<Longrightarrow> map fst (entries m') = map fst (entries m)"
  using arch_names load_state_dict_arch by blast

lemma load_state_dict_values:
  assumes "load_state_dict m sd = Inr m'" and "(n, k, t) \<in> set (entries m')"
  shows "map_of sd n = Some t"
proof -
  have keys: "set (map fst sd) = set (map fst (entries m))"
    and nc: "\<forall>e \<in> set (entries m). \<not> shape_clash sd e"
    using assms(1) by (auto simp: load_state_dict_def list_ex_iff split: if_splits)
  from assms(2) load_state_dict_entries[OF assms(1)]
  obtain e where e: "e \<in> set (entries m)" "load_entry sd e = (n, k, t)" by auto
  obtain n0 k0 t0 where e0: "e = (n0, k0, t0)" by (cases e) auto
  have "n0 \<in> set (map fst sd)" using keys e(1) e0 by force
  then obtain t' where t': "map_of sd n0 = Some t'"
    by (metis map_of_eq_None_iff not_Some_eq set_map)
  have "shape t' = shape t0" using nc e(1) e0 t' by (auto simp: shape_clash_def)
  then show ?thesis using e(2) e0 t' by (auto simp: load_entry_def)
qed

lemma arch_fresh_actor:
  "arch (body (fresh_actor nt sd ad ma i1)) = arch (body (fresh_actor nt sd ad ma i2))"
  by (simp add: fresh_actor_def arch_ActorCNN_init arch_ActorPID_init)

lemma distinct_fresh_actor: "distinct (map fst (entries (body (fresh_actor nt sd ad ma i))))"
  by (simp add: fresh_actor_def distinct_ActorCNN_init distinct_ActorPID_init)

lemma fresh_critic_arch:
  assumes "fresh_critic fs ad i chk = Inr c"
  shows "arch c = arch (CriticCNN_init ad i')"
proof (cases "truthy chk")
  case True
  then have "load_into fs (the chk) (CriticCNN_init ad i) = Inr c"
    using assms by (simp add: fresh_critic_def)
  then obtain sd where "load_state_dict (CriticCNN_init ad i) sd = Inr c"
    by (auto simp: load_into_def split: sum.splits)
  then have "arch c = arch (CriticCNN_init ad i)" by (rule load_state_dict_arch)
  then show ?thesis using arch_CriticCNN_init by simp
next
  case False
  then have "c = CriticCNN_init ad i" using assms by (simp add: fresh_critic_def)
  then show ?thesis using arch_CriticCNN_init by simp
qed

lemma fresh_critic_distinct:
  assumes "fresh_critic fs ad i chk = Inr c"
  shows "distinct (map fst (entries c))"
proof -
  have "map fst (entries c) = map fst (entries (CriticCNN_init ad i))"
    using fresh_critic_arch[OF assms] by (rule arch_names)
  then show ?thesis using distinct_CriticCNN_init by simp
qed

lemma DDPG_init_unfold:
  "DDPG_init fs init sdim ad ma nt chk =
     (if nt \<notin> {''cnn'', ''pid''} then Inl AssertionError
      else case fresh_critic fs ad (init Critic) chk of
             Inl e \<Rightarrow> Inl e
           | Inr c \<Rightarrow>
               Inr \<lparr>state_dim = sdim, flat = False,
                    actor = fresh_actor nt sdim ad ma (init Actor),
                    actor_target = (fresh_actor nt sdim ad ma (init ActorTarget))
                      \<lparr>body := (body (fresh_actor nt sdim ad ma (init ActorTarget)))
                         \<lparr>entries := entries (body (fresh_actor nt sdim ad ma (init Actor)))\<rparr>\<rparr>,
                    actor_optimizer = Adam Actor (1 / 10000),
                    critic = c,
                    critic_target = (CriticCNN_init ad (init CriticTarget))\<lparr>entries := entries c\<rparr>,
                    critic_optimizer = Adam Critic (1 / 1000)\<rparr>)"
proof (cases "nt \<notin> {''cnn'', ''pid''}")
  case True
  then show ?thesis by (simp add: DDPG_init_def)
next
  case False
  have la: "load_state_dict (body (fresh_actor nt sdim ad ma (init ActorTarget)))
              (state_dict_of (body (fresh_actor nt sdim ad ma (init Actor))))
            = Inr ((body (fresh_actor nt sdim ad ma (init ActorTarget)))
                     \<lparr>entries := entries (body (fresh_actor nt sdim ad ma (init Actor)))\<rparr>)"
    by (rule load_state_dict_same_arch[OF arch_fresh_actor distinct_fresh_actor])
  have triple: "(if nt = ''pid''
               then (False, ActorPID_init sdim ad ma (init Actor),
                     ActorPID_init sdim ad ma (init ActorTarget))
               else (False, ActorCNN_init ad ma (init Actor),
                     ActorCNN_init ad ma (init ActorTarget)))
     = (False, fresh_actor nt sdim ad ma (init Actor), fresh_actor nt sdim ad ma (init ActorTarget))"
    by (simp add: fresh_actor_def)
  have fc: "(if truthy chk then load_into fs (the chk) (CriticCNN_init ad (init Critic))
             else Inr (CriticCNN_init ad (init Critic))) = fresh_critic fs ad (init Critic) chk"
    by (simp add: fresh_critic_def)
  show ?thesis
  proof (cases "fresh_critic fs ad (init Critic) chk")
    case (Inl e)
    then show ?thesis
      using False unfolding DDPG_init_def triple fc by (simp add: la)
  next
    case (Inr c)
    have lc: "load_state_dict (CriticCNN_init ad (init CriticTarget)) (state_dict_of c)
        = Inr ((CriticCNN_init ad (init CriticTarget))\<lparr>entries := entries c\<rparr>)"
      using fresh_critic_arch[OF Inr, of "init CriticTarget"] fresh_critic_distinct[OF Inr]
      by (intro load_state_dict_same_arch) simp_all
    show ?thesis
      using False Inr unfolding DDPG_init_def triple fc by (simp add: la lc)
  qed
qed

lemma example_torch_load:
  "torch_load example_fs ''critic.pth''
     = Inr (state_dict_of (CriticCNN_init 2 (\<lambda>nm shp. replicate (prod_list shp) 5)))"
  by (simp add: torch_load_def example_fs_def)

lemma example_fresh_critic:
  "fresh_critic example_fs 2 (example_init Critic) (Some ''critic.pth'')
     = Inr ((CriticCNN_init 2 (example_init Critic))
              \<lparr>entries := entries (CriticCNN_init 2 (\<lambda>nm shp. replicate (prod_list shp) 5))\<rparr>)"
  by (simp add: fresh_critic_def load_into_def example_torch_load truthy_def
      load_state_dict_same_arch[OF arch_CriticCNN_init distinct_CriticCNN_init])

lemma example_agent_constructed:
  "DDPG_init example_fs example_init [3, 120, 160] 2 1 ''cnn'' (Some ''critic.pth'')
     = Inr example_agent"
  unfolding example_agent_def by (simp add: DDPG_init_unfold example_fresh_critic)

lemma parameters_entries_cong: "entries m = entries m' \<Longrightarrow> parameters m = parameters m'"
  by (simp add: parameters_def)

lemma buffers_entries_cong: "entries m = entries m' \<Longrightarrow> buffers m = buffers m'"
  by (simp add: buffers_def)

lemma cls_fresh_actor: "cls (fresh_actor nt sd ad ma i1) = cls (fresh_actor nt sd ad ma i2)"
  by (simp add: fresh_actor_def ActorPID_init_def ActorCNN_init_def Let_def)

lemma DDPG_init_targets:
  assumes "DDPG_init fs init sdim ad ma nt chk = Inr ag"
  shows "entries (body (actor_target ag)) = entries (body (actor ag))"
    and "entries (critic_target ag) = entries (critic ag)"
    and "fresh_critic fs ad (init Critic) chk = Inr (critic ag)"
    and "actor ag = fresh_actor nt sdim ad ma (init Actor)"
    and "cls (actor_target ag) = cls (actor ag)"
    and "flat ag = False"
    and "opt_params (actor_optimizer ag) = Actor"
    and "opt_params (critic_optimizer ag) = Critic"
proof -
  have nt: "\<not> nt \<notin> {''cnn'', ''pid''}"
    using assms unfolding DDPG_init_unfold by (auto split: if_splits)
  obtain c where c: "fresh_critic fs ad (init Critic) chk = Inr c"
    using assms nt unfolding DDPG_init_unfold by (cases "fresh_critic fs ad (init Critic) chk") auto
  have ag: "ag = \<lparr>state_dim = sdim, flat = False,
                    actor = fresh_actor nt sdim ad ma (init Actor),
                    actor_target = (fresh_actor nt sdim ad ma (init ActorTarget))
                      \<lparr>body := (body (fresh_actor nt sdim ad ma (init ActorTarget)))
                         \<lparr>entries := entries (body (fresh_actor nt sdim ad ma (init Actor)))\<rparr>\<rparr>,
                    actor_optimizer = Adam Actor (1 / 10000),
                    critic = c,
                    critic_target = (CriticCNN_init ad (init CriticTarget))\<lparr>entries := entries c\<rparr>,
                    critic_optimizer = Adam Critic (1 / 1000)\<rparr>"
    using assms nt c unfolding DDPG_init_unfold by (auto split: if_splits)
  show "entries (body (actor_target ag)) = entries (body (actor ag))" by (simp add: ag)
  show "entries (critic_target ag) = entries (critic ag)" by (simp add: ag)
  show "fresh_critic fs ad (init Critic) chk = Inr (critic ag)" by (simp add: ag c)
  show "actor ag = fresh_actor nt sdim ad ma (init Actor)" by (simp add: ag)
  show "cls (actor_target ag) = cls (actor ag)" by (simp add: ag cls_fresh_actor)
  show "flat ag = False" by (simp add: ag)
  show "opt_params (actor_optimizer ag) = Actor" by (simp add: ag Adam_def)
  show "opt_params (critic_optimizer ag) = Critic" by (simp add: ag Adam_def)
qed

text \<open>
  C5. After the constructor returns, every parameter of the target actor is the parameter
  of the actor, and every parameter of the target critic is the parameter of the critic,
  whichever variant was chosen and whether or not a critic checkpoint was given. The
  buffers agree as well. The critic is the one left by the optional load of the
  checkpoint, so with a checkpoint the target critic equals the loaded critic.
\<close>

theorem target_initialization:
  assumes "DDPG_init fs init sdim action_dim max_act net_type critic_chkp = Inr ag"
  shows "parameters (body (actor_target ag)) = parameters (body (actor ag))
       \<and> parameters (critic_target ag) = parameters (critic ag)
       \<and> buffers (body (actor_target ag)) = buffers (body (actor ag))
       \<and> buffers (critic_target ag) = buffers (critic ag)
       \<and> fresh_critic fs action_dim (init Critic) critic_chkp = Inr (critic ag)"
proof -
  note t = DDPG_init_targets[OF assms]
  have "parameters (body (actor_target ag)) = parameters (body (actor ag))"
    using t(1) by (rule parameters_entries_cong)
  moreover have "parameters (critic_target ag) = parameters (critic ag)"
    using t(2) by (rule parameters_entries_cong)
  moreover have "buffers (body (actor_target ag)) = buffers (body (actor ag))"
    using t(1) by (rule buffers_entries_cong)
  moreover have "buffers (critic_target ag) = buffers (critic ag)"
    using t(2) by (rule buffers_entries_cong)
  ultimately show ?thesis using t(3) by blast
qed


theorem target_initialization_witness:
  "DDPG_init example_fs example_init [3, 120, 160] 2 1 ''cnn'' (Some ''critic.pth'')
     = Inr example_agent
   \<and> parameters (body (actor_target example_agent)) = parameters (body (actor example_agent))
   \<and> parameters (critic_target example_agent) = parameters (critic example_agent)
   \<and> fresh_critic example_fs 2 (example_init Critic) (Some ''critic.pth'')
       = Inr (critic example_agent)"
  using target_initialization[OF example_agent_constructed] example_agent_constructed
  by blast

section \<open>The forward pass of the actors\<close>

lemma sigm_pos: "0 < sigm x"
  by (simp add: sigm_def add_pos_pos)

lemma sigm_less_one: "sigm x < 1"
  by (simp add: sigm_def add_pos_pos)

lemma tanh_bounds: "- 1 \<le> tanh (x::real) \<and> tanh x \<le> 1"
  using tanh_real_gt_neg1[of x] tanh_real_lt_1[of x] by simp

lemma broadcast_length: "broadcast n xs = Some d \<Longrightarrow> length d = n"
  by (auto simp: broadcast_def split: if_splits)

lemma squash_Inr:
  assumes "squash ma raw = Inr y"
  shows "y = map (squash_row ma) raw" and "\<forall>r \<in> set raw. 2 \<le> length r"
  using assms by (auto simp: squash_def list_ex_iff not_less split: if_splits)

lemma squash_row_nth:
  "2 \<le> length r \<Longrightarrow> squash_row ma r ! 0 = 1 / 2 + ma * sigm (r ! 0)"
  "2 \<le> length r \<Longrightarrow> squash_row ma r ! 1 = tanh (r ! 1)"
  "length (squash_row ma r) = length r"
proof -
  show "length (squash_row ma r) = length r" by (simp add: squash_row_def)
  show "2 \<le> length r \<Longrightarrow> squash_row ma r ! 0 = 1 / 2 + ma * sigm (r ! 0)"
    by (cases r) (simp_all add: squash_row_def)
  show "2 \<le> length r \<Longrightarrow> squash_row ma r ! 1 = tanh (r ! 1)"
    by (simp add: squash_row_def)
qed

lemma squash_row_nth_Suc0: "2 \<le> length r \<Longrightarrow> squash_row ma r ! Suc 0 = tanh (r ! Suc 0)"
  using squash_row_nth(2)[of r ma] by simp

lemma add_heading_Inr:
  assumes "add_heading c ds gs x = Inr z"
  shows "z = map (heading_row c) (zip x (zip (the (broadcast (length x) ds)) (the (broadcast (length x) gs))))"
    and "\<forall>r \<in> set x. 2 \<le> length r"
    and "broadcast (length x) ds \<noteq> None" and "broadcast (length x) gs \<noteq> None"
  using assms by (auto simp: add_heading_def list_ex_iff not_less split: if_splits option.splits)

lemma add_heading_nth:
  assumes "add_heading c ds gs x = Inr z" and "i < length x"
  shows "z ! i = (x ! i)[1 := x ! i ! 1
            + c (the (broadcast (length x) ds) ! i) (the (broadcast (length x) gs) ! i) (x ! i ! 0)]"
    and "length z = length x"
proof -
  obtain d g where d: "broadcast (length x) ds = Some d" and g: "broadcast (length x) gs = Some g"
    using add_heading_Inr(3,4)[OF assms(1)] by auto
  have len: "length d = length x" "length g = length x"
    using d g by (simp_all add: broadcast_length)
  have z: "z = map (heading_row c) (zip x (zip d g))"
    using add_heading_Inr(1)[OF assms(1)] d g by simp
  show "length z = length x" using z len by simp
  show "z ! i = (x ! i)[1 := x ! i ! 1
            + c (the (broadcast (length x) ds) ! i) (the (broadcast (length x) gs) ! i) (x ! i ! 0)]"
    using z len assms(2) d g by (simp add: heading_row_def)
qed

lemma ActorCNN_forward_full:
  assumes "ActorCNN_forward N self a nz x ds gs False = Inr (y, a')"
  obtains raw sq where "actor_net N (body a) nz x = Inr raw"
    and "squash (max_action a) raw = Inr sq"
    and "add_heading (angle_control_commands N) ds gs sq = Inr (val y)"
    and "graph y = {self}"
    and "a' = a\<lparr>body := track_running_stats (batch_stats N (body a) x) (body a)\<rparr>"
  using assms
  by (auto simp: ActorCNN_forward_def ActorCNN_head_def split: sum.splits)


lemma ActorCNN_forward_rows:
  assumes raw: "actor_net N (body a) nz x = Inr raw"
    and fw: "ActorCNN_forward N self a nz x ds gs False = Inr (y, a')"
    and i: "i < length raw"
  shows "length (val y) = length raw"
    and "2 \<le> length (raw ! i)"
    and "val y ! i ! 0 = 1 / 2 + max_action a * sigm (raw ! i ! 0)"
    and "val y ! i ! 1 = tanh (raw ! i ! 1)
           + angle_control_commands N (the (broadcast (length raw) ds) ! i)
               (the (broadcast (length raw) gs) ! i) (val y ! i ! 0)"
proof -
  from fw obtain raw' sq where r: "actor_net N (body a) nz x = Inr raw'"
    and sq: "squash (max_action a) raw' = Inr sq"
    and ah: "add_heading (angle_control_commands N) ds gs sq = Inr (val y)"
    by (rule ActorCNN_forward_full)
  have [simp]: "raw' = raw" using r raw by simp
  have sqm: "sq = map (squash_row (max_action a)) raw" and two: "\<forall>r \<in> set raw. 2 \<le> length r"
    using squash_Inr[OF sq] by simp_all
  have len: "length sq = length raw" using sqm by simp
  have li: "2 \<le> length (raw ! i)" using two i by simp
  have sqi: "sq ! i = squash_row (max_action a) (raw ! i)" using sqm i by simp
  have yi: "val y ! i = (sq ! i)[1 := sq ! i ! 1
            + angle_control_commands N (the (broadcast (length raw) ds) ! i)
                (the (broadcast (length raw) gs) ! i) (sq ! i ! 0)]"
    using add_heading_nth(1)[OF ah, of i] i len by simp
  show "length (val y) = length raw" using add_heading_nth(2)[OF ah, of i] i len by simp
  show "2 \<le> length (raw ! i)" by (rule li)
  show t: "val y ! i ! 0 = 1 / 2 + max_action a * sigm (raw ! i ! 0)"
    using li by (simp add: yi sqi squash_row_nth)
  show "val y ! i ! 1 = tanh (raw ! i ! 1)
           + angle_control_commands N (the (broadcast (length raw) ds) ! i)
               (the (broadcast (length raw) gs) ! i) (val y ! i ! 0)"
    using li unfolding t by (simp add: yi sqi squash_row_nth squash_row_nth_Suc0)
qed

lemma ActorCNN_forward_controller:
  assumes "ActorCNN_forward N self a nz x ds gs False = Inr (y, a')"
  shows "\<exists>y'. ActorCNN_forward (N\<lparr>angle_control_commands := c\<rparr>) self a nz x ds gs False = Inr (y', a')"
proof -
  from assms obtain raw sq where r: "actor_net N (body a) nz x = Inr raw"
    and sq: "squash (max_action a) raw = Inr sq"
    and ah: "add_heading (angle_control_commands N) ds gs sq = Inr (val y)"
    and a': "a' = a\<lparr>body := track_running_stats (batch_stats N (body a) x) (body a)\<rparr>"
    by (rule ActorCNN_forward_full)
  have "\<exists>z. add_heading c ds gs sq = Inr z"
    using add_heading_Inr(2-4)[OF ah]
    by (auto simp: add_heading_def list_ex_iff not_less)
  then show ?thesis
    using r sq a' by (auto simp: ActorCNN_forward_def ActorCNN_head_def)
qed

lemma sigm_zero: "sigm 0 = 1 / 2"
  by (simp add: sigm_def)

lemma example_actor: "actor example_agent = ActorCNN_init 2 1 (example_init Actor)"
  using DDPG_init_targets(4)[OF example_agent_constructed] by (simp add: fresh_actor_def)

lemma example_actor_net:
  "actor_net example_numerics (body (actor example_agent)) 0 (expand_dims example_obs) = Inr [[0, 0]]"
  by (simp add: example_numerics_def expand_dims_def example_obs_def)

lemma example_forward:
  "ActorCNN_forward example_numerics Actor (actor example_agent) 0 (expand_dims example_obs)
       [1 / 2] [1 / 4] False
     = Inr (\<lparr>val = [[1, 7 / 2]], graph = {Actor}\<rparr>,
            (actor example_agent)
              \<lparr>body := track_running_stats
                  (batch_stats example_numerics (body (actor example_agent)) (expand_dims example_obs))
                  (body (actor example_agent))\<rparr>)"
proof -
  have ma: "max_action (actor example_agent) = 1"
    by (simp add: example_actor ActorCNN_init_def)
  have c: "angle_control_commands example_numerics = (\<lambda>d g v. 6 * d + 2 * g)"
    by (simp add: example_numerics_def)
  show ?thesis
    unfolding ActorCNN_forward_def ActorCNN_head_def example_actor_net ma c
    by (simp add: squash_def squash_row_def sigm_zero add_heading_def broadcast_def heading_row_def)
qed

text \<open>
  C3. In full mode (\<^verbatim>\<open>only_PID=False\<close>) of the visual actor, with \<^verbatim>\<open>max_action > 0\<close>,
  the throttle of every row of the output is \<open>0.5 + max_action * sigmoid\<close> of the raw
  throttle of that row, and lies between \<open>0.5\<close> and \<open>0.5 + max_action\<close> (with
  \<^verbatim>\<open>max_action = 1\<close>: between 0.5 and 1.5), so it is never negative.
\<close>

theorem throttle_bound:
  assumes "0 < max_action a"
    and "actor_net N (body a) nz x = Inr raw"
    and "ActorCNN_forward N self a nz x ds gs False = Inr (y, a')"
  shows "length (val y) = length raw
       \<and> (\<forall>i < length raw.
             val y ! i ! 0 = 1 / 2 + max_action a * sigm (raw ! i ! 0)
           \<and> 1 / 2 \<le> val y ! i ! 0 \<and> val y ! i ! 0 \<le> 1 / 2 + max_action a
           \<and> (max_action a = 1 \<longrightarrow> val y ! i ! 0 \<le> 3 / 2)
           \<and> 0 < val y ! i ! 0)"
proof (intro conjI allI impI)
  fix i assume i: "i < length raw"
  note rows = ActorCNN_forward_rows[OF assms(2,3) i]
  have lo: "0 \<le> max_action a * sigm (raw ! i ! 0)"
    using assms(1) sigm_pos[of "raw ! i ! 0"] by simp
  have hi: "max_action a * sigm (raw ! i ! 0) \<le> max_action a"
    using assms(1) sigm_less_one[of "raw ! i ! 0"] by simp
  show "val y ! i ! 0 = 1 / 2 + max_action a * sigm (raw ! i ! 0)" by (rule rows(3))
  show "1 / 2 \<le> val y ! i ! 0" using lo rows(3) by simp
  show "val y ! i ! 0 \<le> 1 / 2 + max_action a" using hi rows(3) by simp
  show "0 < val y ! i ! 0" using lo rows(3) by simp
  assume "max_action a = 1"
  then show "val y ! i ! 0 \<le> 3 / 2" using hi rows(3) by simp
next
  show "length (val y) = length raw"
  proof (cases raw)
    case Nil
    from assms(3) obtain raw' sq where r: "actor_net N (body a) nz x = Inr raw'"
      and sq: "squash (max_action a) raw' = Inr sq"
      and ah: "add_heading (angle_control_commands N) ds gs sq = Inr (val y)"
      by (rule ActorCNN_forward_full)
    have "sq = []" using squash_Inr(1)[OF sq] r assms(2) Nil by simp
    then show ?thesis using add_heading_Inr(1)[OF ah] Nil by simp
  next
    case (Cons r rs)
    then show ?thesis using ActorCNN_forward_rows(1)[OF assms(2,3), of 0] by simp
  qed
qed

theorem throttle_bound_witness:
  "0 < max_action (actor example_agent)
   \<and> actor_net example_numerics (body (actor example_agent)) 0 (expand_dims example_obs)
       = Inr [[0, 0]]
   \<and> ActorCNN_forward example_numerics Actor (actor example_agent) 0 (expand_dims example_obs)
        [1 / 2] [1 / 4] False
       = Inr (\<lparr>val = [[1, 7 / 2]], graph = {Actor}\<rparr>,
            (actor example_agent)
              \<lparr>body := track_running_stats
                  (batch_stats example_numerics (body (actor example_agent)) (expand_dims example_obs))
                  (body (actor example_agent))\<rparr>)
   \<and> [[1, 7 / 2]] ! 0 ! 0 = 1 / 2 + max_action (actor example_agent) * sigm ([[0, 0]] ! 0 ! 0)
   \<and> (1::real) / 2 \<le> [[1, 7 / 2]] ! 0 ! 0
   \<and> [[1, 7 / 2]] ! 0 ! 0 \<le> 1 / 2 + max_action (actor example_agent)"
proof -
  have ma: "0 < max_action (actor example_agent)"
    by (simp add: example_actor ActorCNN_init_def)
  show ?thesis
    using throttle_bound[OF ma example_actor_net example_forward] ma example_actor_net example_forward
    by simp
qed

text \<open>
  C4. In full mode of the visual actor, the steering of every row of the output is the
  sum of \<open>tanh\<close> of the raw steering and of the controller's correction for the
  distance, the angle and the throttle of that row; the \<open>tanh\<close> term lies in
  \<open>[-1, 1]\<close>. The sum is not clipped: whatever the bound, a controller whose
  correction is large enough drives every steering output beyond it.
\<close>

theorem steering_sum:
  assumes "actor_net N (body a) nz x = Inr raw"
    and "ActorCNN_forward N self a nz x ds gs False = Inr (y, a')"
  shows "(\<forall>i < length raw.
            val y ! i ! 1 = tanh (raw ! i ! 1)
              + angle_control_commands N (the (broadcast (length raw) ds) ! i)
                  (the (broadcast (length raw) gs) ! i) (val y ! i ! 0)
          \<and> - 1 \<le> tanh (raw ! i ! 1) \<and> tanh (raw ! i ! 1) \<le> 1)
       \<and> (\<forall>B. \<exists>c. \<forall>i < length raw.
             B < val (fst (projr (ActorCNN_forward (N\<lparr>angle_control_commands := c\<rparr>)
                                    self a nz x ds gs False))) ! i ! 1)"
proof (intro conjI allI impI)
  fix i assume i: "i < length raw"
  show "val y ! i ! 1 = tanh (raw ! i ! 1)
              + angle_control_commands N (the (broadcast (length raw) ds) ! i)
                  (the (broadcast (length raw) gs) ! i) (val y ! i ! 0)"
    by (rule ActorCNN_forward_rows(4)[OF assms i])
  show "- 1 \<le> tanh (raw ! i ! 1)" using tanh_bounds by simp
  show "tanh (raw ! i ! 1) \<le> 1" using tanh_bounds by simp
next
  fix B :: real
  let ?c = "\<lambda>d g v. B + (2::real)"
  let ?N = "N\<lparr>angle_control_commands := ?c\<rparr>"
  obtain y' where fw: "ActorCNN_forward ?N self a nz x ds gs False = Inr (y', a')"
    using ActorCNN_forward_controller[OF assms(2), of ?c] by auto
  have raw: "actor_net ?N (body a) nz x = Inr raw" using assms(1) by simp
  have "\<forall>i < length raw. B < val y' ! i ! 1"
  proof (intro allI impI)
    fix i assume i: "i < length raw"
    have "val y' ! i ! 1 = tanh (raw ! i ! 1) + (B + 2)"
      using ActorCNN_forward_rows(4)[OF raw fw i] by simp
    then show "B < val y' ! i ! 1" using tanh_bounds[of "raw ! i ! 1"] by simp
  qed
  then show "\<exists>c. \<forall>i < length raw.
             B < val (fst (projr (ActorCNN_forward (N\<lparr>angle_control_commands := c\<rparr>)
                                    self a nz x ds gs False))) ! i ! 1"
    using fw by (intro exI[of _ ?c]) simp
qed

theorem steering_sum_witness:
  "actor_net example_numerics (body (actor example_agent)) 0 (expand_dims example_obs)
       = Inr [[0, 0]]
   \<and> ActorCNN_forward example_numerics Actor (actor example_agent) 0 (expand_dims example_obs)
        [1 / 2] [1 / 4] False
       = Inr (\<lparr>val = [[1, 7 / 2]], graph = {Actor}\<rparr>,
            (actor example_agent)
              \<lparr>body := track_running_stats
                  (batch_stats example_numerics (body (actor example_agent)) (expand_dims example_obs))
                  (body (actor example_agent))\<rparr>)
   \<and> [[1, 7 / 2]] ! 0 ! 1
       = tanh ([[0, 0]] ! 0 ! 1)
         + angle_control_commands example_numerics
             (the (broadcast (length [[0::real, 0]]) [1 / 2]) ! 0)
             (the (broadcast (length [[0::real, 0]]) [1 / 4]) ! 0) ([[1, 7 / 2]] ! 0 ! 0)
   \<and> - 1 \<le> tanh ([[0::real, 0]] ! 0 ! 1) \<and> tanh ([[0::real, 0]] ! 0 ! 1) \<le> 1
   \<and> (1::real) < [[1, 7 / 2]] ! 0 ! 1"
proof -
  have "0 < length [[0::real, 0]]" by simp
  then show ?thesis
    using steering_sum[OF example_actor_net example_forward] example_actor_net example_forward
    by simp
qed

section \<open>What each step of a module keeps\<close>

lemma bn_track_entry_arch:
  "(\<lambda>(n, k, t). (n, k, shape t)) (bn_track_entry st e) = (\<lambda>(n, k, t). (n, k, shape t)) e"
  by (cases e) (simp add: bn_track_entry_def split: kind.splits)

lemma bn_track_entry_param:
  "(\<lambda>(n, k, t). k = Parameter) (bn_track_entry st e) = (\<lambda>(n, k, t). k = Parameter) e"
  "(\<lambda>(n, k, t). k = Parameter) e \<Longrightarrow> bn_track_entry st e = e"
  by (cases e; simp add: bn_track_entry_def split: kind.splits)+

lemma parameters_map_entries:
  assumes "\<And>e. (\<lambda>(n, k, t). k = Parameter) (f e) = (\<lambda>(n, k, t). k = Parameter) e"
    and "\<And>e. (\<lambda>(n, k, t). k = Parameter) e \<Longrightarrow> f e = e"
  shows "parameters (m\<lparr>entries := map f (entries m)\<rparr>) = parameters m"
proof -
  have "map (\<lambda>(n, k, t). (n, t)) (filter (\<lambda>(n, k, t). k = Parameter) (map f es))
      = map (\<lambda>(n, k, t). (n, t)) (filter (\<lambda>(n, k, t). k = Parameter) es)" for es
  proof (induction es)
    case Nil
    show ?case by simp
  next
    case (Cons e es)
    show ?case
    proof (cases "(\<lambda>(n, k, t). k = Parameter) e")
      case True
      then show ?thesis using Cons assms(2)[OF True] by simp
    next
      case False
      then have "\<not> (\<lambda>(n, k, t). k = Parameter) (f e)" using assms(1)[of e] by simp
      then show ?thesis using Cons False by simp
    qed
  qed
  then show ?thesis by (simp add: parameters_def)
qed

lemma arch_map_entries:
  assumes "\<And>e. (\<lambda>(n, k, t). (n, k, shape t)) (f e) = (\<lambda>(n, k, t). (n, k, shape t)) e"
  shows "arch (m\<lparr>entries := map f (entries m)\<rparr>) = arch m"
  using assms by (simp add: arch_def comp_def)

lemma track_running_stats_keeps:
  "parameters (track_running_stats st m) = parameters m"
  "arch (track_running_stats st m) = arch m"
  "training (track_running_stats st m) = training m"
  "grad (track_running_stats st m) = grad m"
  "\<not> training m \<Longrightarrow> track_running_stats st m = m"
  by (simp_all add: track_running_stats_def parameters_map_entries bn_track_entry_param
      arch_map_entries bn_track_entry_arch)

lemma accumulate_keeps:
  "entries (accumulate g m) = entries m"
  "training (accumulate g m) = training m"
  "parameters (accumulate g m) = parameters m"
  "arch (accumulate g m) = arch m"
  by (simp_all add: accumulate_def parameters_def arch_def)

lemma zero_grad_keeps:
  "entries (zero_grad b m) = entries m"
  "training (zero_grad b m) = training m"
  "parameters (zero_grad b m) = parameters m"
  "arch (zero_grad b m) = arch m"
  by (simp_all add: zero_grad_def parameters_def arch_def)

lemma step_entry_arch:
  "(\<lambda>(n, k, t). (n, k, shape t)) (step_entry N opt gr e) = (\<lambda>(n, k, t). (n, k, shape t)) e"
  by (cases e) (simp add: step_entry_def split: kind.splits option.splits)

lemma step_module_keeps:
  "arch (step_module N opt m) = arch m"
  "training (step_module N opt m) = training m"
  "grad (step_module N opt m) = grad m"
  by (simp_all add: step_module_def arch_map_entries step_entry_arch)

lemma soft_update_arch:
  "map (\<lambda>(n, k, t). (n, k, shape t)) (soft_update tau ps es) = map (\<lambda>(n, k, t). (n, k, shape t)) es"
  by (induction tau ps es rule: soft_update.induct) (simp_all add: blend_def)

lemma soft_update_module_keeps:
  "arch (soft_update_module tau live tgt) = arch tgt"
  "training (soft_update_module tau live tgt) = training tgt"
  "grad (soft_update_module tau live tgt) = grad tgt"
  by (simp_all add: soft_update_module_def arch_def soft_update_arch)

lemma load_state_dict_keeps:
  assumes "load_state_dict m sd = Inr m'"
  shows "training m' = training m" and "grad m' = grad m"
  using load_state_dict_entries[OF assms] by simp_all

section \<open>The four networks by name\<close>

lemma get_set_module:
  "get_module nid (set_module nid' m ag) = (if nid = nid' then m else get_module nid ag)"
  by (cases nid; cases nid'; simp add: get_module_def set_module_def)

lemma set_module_fields:
  "flat (set_module nid m ag) = flat ag"
  "cls (actor (set_module nid m ag)) = cls (actor ag)"
  "cls (actor_target (set_module nid m ag)) = cls (actor_target ag)"
  "max_action (actor (set_module nid m ag)) = max_action (actor ag)"
  "max_action (actor_target (set_module nid m ag)) = max_action (actor_target ag)"
  "actor_optimizer (set_module nid m ag) = actor_optimizer ag"
  "critic_optimizer (set_module nid m ag) = critic_optimizer ag"
  by (cases nid; simp add: set_module_def)+

lemma get_module_simps:
  "get_module Actor ag = body (actor ag)"
  "get_module ActorTarget ag = body (actor_target ag)"
  "get_module Critic ag = critic ag"
  "get_module CriticTarget ag = critic_target ag"
  by (simp_all add: get_module_def)

lemma fixed_eqI:
  assumes "flat ag' = flat ag" and "cls (actor ag') = cls (actor ag)"
    and "cls (actor_target ag') = cls (actor_target ag)"
    and "opt_params (actor_optimizer ag') = opt_params (actor_optimizer ag)"
    and "opt_params (critic_optimizer ag') = opt_params (critic_optimizer ag)"
    and "\<And>nid. arch (get_module nid ag') = arch (get_module nid ag)"
  shows "fixed ag' = fixed ag"
  using assms by (simp add: fixed_def)

lemma fixed_set_module:
  "arch m = arch (get_module nid ag) \<Longrightarrow> fixed (set_module nid m ag) = fixed ag"
  by (rule fixed_eqI) (simp_all add: set_module_fields get_set_module)

lemma fixed_arch: "fixed ag' = fixed ag \<Longrightarrow> arch (get_module nid ag') = arch (get_module nid ag)"
  by (simp add: fixed_def fun_eq_iff)

lemma fixed_fields:
  assumes "fixed ag' = fixed ag"
  shows "flat ag' = flat ag" and "cls (actor ag') = cls (actor ag)"
    and "cls (actor_target ag') = cls (actor_target ag)"
    and "opt_params (actor_optimizer ag') = opt_params (actor_optimizer ag)"
    and "opt_params (critic_optimizer ag') = opt_params (critic_optimizer ag)"
  using assms by (simp_all add: fixed_def)

section \<open>What a forward pass keeps\<close>

lemma actor_call_body:
  assumes "actor_call N self a nz x ds gs extra = Inr (y, a')"
  shows "a' = a \<or> (cls a = ActorCNN \<and> extra \<noteq> Some True \<and> graph y = {self}
            \<and> a' = a\<lparr>body := track_running_stats (batch_stats N (body a) x) (body a)\<rparr>)"
    and "cls a = ActorPID \<or> extra = Some True \<Longrightarrow> a' = a \<and> graph y = {}"
    and "graph y \<subseteq> {self}"
  using assms
  by (auto simp: actor_call_def ActorPID_forward_def ActorCNN_forward_def ActorCNN_head_def
      leaf_def split: actor_class.splits option.splits sum.splits if_splits)

lemma actor_call_keeps:
  assumes "actor_call N self a nz x ds gs extra = Inr (y, a')"
  shows "cls a' = cls a" and "max_action a' = max_action a"
    and "parameters (body a') = parameters (body a)"
    and "arch (body a') = arch (body a)"
    and "training (body a') = training (body a)"
    and "grad (body a') = grad (body a)"
    and "graph y \<subseteq> {self}"
    and "\<not> training (body a) \<Longrightarrow> a' = a"
  using actor_call_body[OF assms]
  by (auto simp: track_running_stats_keeps)

lemma CriticCNN_forward_Inr:
  assumes "CriticCNN_forward N self m states actions = Inr (q, m')"
  shows "m' = track_running_stats (batch_stats N m states) m"
    and "graph q = insert self (graph actions)"
    and "critic_net N m states (val actions) = Inr (val q)"
  using assms by (auto simp: CriticCNN_forward_def split: sum.splits)

lemma CriticCNN_forward_keeps:
  assumes "CriticCNN_forward N self m states actions = Inr (q, m')"
  shows "parameters m' = parameters m" and "arch m' = arch m"
    and "training m' = training m" and "grad m' = grad m"
  using CriticCNN_forward_Inr(1)[OF assms] by (simp_all add: track_running_stats_keeps)

section \<open>Prediction\<close>

lemma predict_Inr:
  assumes "predict N ag state ds gs only_pid nz = Inr (act, ag')"
  obtains x a' rest where "shape state = 3 # rest"
    and "actor_call N Actor (actor ag) nz (to_batch ag state) ds gs (Some only_pid) = Inr (x, a')"
    and "act = concat (val x)" and "ag' = ag\<lparr>actor := a'\<rparr>"
  using assms
  by (auto simp: predict_def detach_def split: list.splits if_splits sum.splits)

lemma predict_fixed:
  assumes "predict N ag state ds gs only_pid nz = Inr (act, ag')"
  shows "fixed ag' = fixed ag"
proof -
  from assms obtain x a' where c: "actor_call N Actor (actor ag) nz (to_batch ag state) ds gs (Some only_pid) = Inr (x, a')"
    and ag': "ag' = ag\<lparr>actor := a'\<rparr>"
    by (rule predict_Inr)
  show ?thesis
  proof (rule fixed_eqI)
    fix nid show "arch (get_module nid ag') = arch (get_module nid ag)"
      by (cases nid) (simp_all add: get_module_def ag' actor_call_keeps(4)[OF c])
  qed (simp_all add: ag' actor_call_keeps(1)[OF c])
qed

lemma predict_pid:
  assumes "cls (actor ag) = ActorPID"
  shows "predict N ag state ds gs only_pid nz
     = Inl (case shape state of [] \<Rightarrow> IndexError
            | c # rest \<Rightarrow> if c \<noteq> 3 then AssertionError else TypeError)"
  using assms by (simp add: predict_def actor_call_def split: list.splits)

lemma example_predict:
  "predict example_numerics example_agent example_obs [1 / 2] [1 / 4] False 0
     = Inr ([1, 7 / 2],
            example_agent
              \<lparr>actor := (actor example_agent)
                 \<lparr>body := track_running_stats
                     (batch_stats example_numerics (body (actor example_agent)) (expand_dims example_obs))
                     (body (actor example_agent))\<rparr>\<rparr>)"
proof -
  have fl: "to_batch example_agent example_obs = expand_dims example_obs"
    using DDPG_init_targets(6)[OF example_agent_constructed] by (simp add: to_batch_def)
  have cl: "cls (actor example_agent) = ActorCNN"
    by (simp add: example_actor ActorCNN_init_def)
  have sh: "shape example_obs = [3, 120, 160]" by (simp add: example_obs_def)
  show ?thesis
    unfolding predict_def sh fl
    by (simp add: actor_call_def cl example_forward detach_def)
qed

lemma example_actor_training: "training (body (actor example_agent))"
  by (simp add: example_actor ActorCNN_init_def new_module_def)

lemma example_counter_before:
  "map_of (buffers (body (actor example_agent))) ''bn1.num_batches_tracked''
     = Some \<lparr>shape = [], data = [0]\<rparr>"
  by (simp add: example_actor ActorCNN_init_def layer_defs buffers_def)

lemma example_counter_after:
  "map_of (buffers (track_running_stats st (body (actor example_agent)))) ''bn1.num_batches_tracked''
     = Some \<lparr>shape = [], data = [1]\<rparr>"
  by (simp add: example_actor ActorCNN_init_def layer_defs buffers_def track_running_stats_def
      bn_track_entry_def bn_counters_def)

text \<open>
  C7, as the claim states it, fails: \<^verbatim>\<open>predict\<close> never switches the actor to inference
  mode. On the agent built above, whose actor is in training mode as every new module is,
  one call of \<^verbatim>\<open>predict\<close> in full mode returns an action and leaves the batch counter
  of the first batch normalisation of the actor at 1 instead of 0.
\<close>

theorem predict_counterexample:
  "training (body (actor example_agent))
   \<and> shape example_obs = [3, 120, 160]
   \<and> fst (projr (predict example_numerics example_agent example_obs [1 / 2] [1 / 4] False 0))
       = [1, 7 / 2]
   \<and> map_of (buffers (body (actor example_agent))) ''bn1.num_batches_tracked''
       = Some \<lparr>shape = [], data = [0]\<rparr>
   \<and> map_of (buffers (body (actor (snd (projr
         (predict example_numerics example_agent example_obs [1 / 2] [1 / 4] False 0))))))
         ''bn1.num_batches_tracked''
       = Some \<lparr>shape = [], data = [1]\<rparr>"
proof -
  have "shape example_obs = [3, 120, 160]" by (simp add: example_obs_def)
  then show ?thesis
    by (simp add: example_predict example_actor_training example_counter_before
        example_counter_after)
qed

text \<open>
  C7, amended. A call of \<^verbatim>\<open>predict\<close> that returns had a state with 3 channels and
  returns the action of the actor, detached and flattened. It runs the actor in the mode
  the actor is in: it changes neither the mode nor any parameter or gradient of any
  network, nor anything of the critic, the two targets and the two optimizers. With the
  actor in evaluation mode, or with \<^verbatim>\<open>only_pid\<close>, the agent is unchanged; with the actor
  in training mode and without \<^verbatim>\<open>only_pid\<close>, the buffers of the batch normalisations of
  the actor are updated, and the forward pass tracks gradients (the actor is in the graph
  of its output).
\<close>

theorem predict_effects:
  assumes "predict N ag state ds gs only_pid nz = Inr (act, ag')"
  shows "hd (shape state) = 3
       \<and> act = concat (val (fst (projr
               (actor_call N Actor (actor ag) nz (to_batch ag state) ds gs (Some only_pid)))))
       \<and> parameters (body (actor ag')) = parameters (body (actor ag))
       \<and> training (body (actor ag')) = training (body (actor ag))
       \<and> grad (body (actor ag')) = grad (body (actor ag))
       \<and> critic ag' = critic ag \<and> actor_target ag' = actor_target ag
       \<and> critic_target ag' = critic_target ag
       \<and> actor_optimizer ag' = actor_optimizer ag \<and> critic_optimizer ag' = critic_optimizer ag
       \<and> (\<not> training (body (actor ag)) \<or> only_pid \<longrightarrow> ag' = ag)
       \<and> (training (body (actor ag)) \<and> \<not> only_pid \<longrightarrow>
             body (actor ag') = track_running_stats
                 (batch_stats N (body (actor ag)) (to_batch ag state)) (body (actor ag))
           \<and> graph (fst (projr
               (actor_call N Actor (actor ag) nz (to_batch ag state) ds gs (Some only_pid))))
              = {Actor})"
proof -
  from assms obtain x a' rest where sh: "shape state = 3 # rest"
    and c: "actor_call N Actor (actor ag) nz (to_batch ag state) ds gs (Some only_pid) = Inr (x, a')"
    and act: "act = concat (val x)" and ag': "ag' = ag\<lparr>actor := a'\<rparr>"
    by (rule predict_Inr)
  note k = actor_call_keeps[OF c]
  note b = actor_call_body[OF c]
  have e1: "\<not> training (body (actor ag)) \<or> only_pid \<longrightarrow> ag' = ag"
    using k(8) b(2) ag' by auto
  have e2: "training (body (actor ag)) \<and> \<not> only_pid \<longrightarrow>
             body (actor ag') = track_running_stats
                 (batch_stats N (body (actor ag)) (to_batch ag state)) (body (actor ag))
           \<and> graph x = {Actor}"
  proof (intro impI)
    assume h: "training (body (actor ag)) \<and> \<not> only_pid"
    have "cls (actor ag) = ActorCNN"
      using c by (auto simp: actor_call_def split: actor_class.splits)
    then have "actor_call N Actor (actor ag) nz (to_batch ag state) ds gs (Some only_pid)
        = ActorCNN_forward N Actor (actor ag) nz (to_batch ag state) ds gs False"
      using h by (simp add: actor_call_def)
    then have "ActorCNN_forward N Actor (actor ag) nz (to_batch ag state) ds gs False = Inr (x, a')"
      using c by simp
    then show "body (actor ag') = track_running_stats
                 (batch_stats N (body (actor ag)) (to_batch ag state)) (body (actor ag))
           \<and> graph x = {Actor}"
      using ag' by (elim ActorCNN_forward_full) simp
  qed
  have fx: "fst (projr (actor_call N Actor (actor ag) nz (to_batch ag state) ds gs (Some only_pid))) = x"
    using c by simp
  show ?thesis
    unfolding fx using sh act k(3,5,6) e1 e2 by (simp add: ag')
qed

theorem predict_effects_witness:
  "predict example_numerics example_agent example_obs [1 / 2] [1 / 4] False 0
     = Inr ([1, 7 / 2],
            example_agent
              \<lparr>actor := (actor example_agent)
                 \<lparr>body := track_running_stats
                     (batch_stats example_numerics (body (actor example_agent)) (expand_dims example_obs))
                     (body (actor example_agent))\<rparr>\<rparr>)
   \<and> hd (shape example_obs) = 3
   \<and> parameters (track_running_stats
         (batch_stats example_numerics (body (actor example_agent)) (expand_dims example_obs))
         (body (actor example_agent)))
       = parameters (body (actor example_agent))
   \<and> training (body (actor example_agent)) \<and> \<not> False"
proof -
  note pe = predict_effects[OF example_predict]
  have h: "hd (shape example_obs) = 3" using pe by (elim conjE)
  have "parameters (body (actor (example_agent
              \<lparr>actor := (actor example_agent)
                 \<lparr>body := track_running_stats
                     (batch_stats example_numerics (body (actor example_agent)) (expand_dims example_obs))
                     (body (actor example_agent))\<rparr>\<rparr>)))
       = parameters (body (actor example_agent))"
    using pe by (elim conjE)
  then have p: "parameters (track_running_stats
         (batch_stats example_numerics (body (actor example_agent)) (expand_dims example_obs))
         (body (actor example_agent)))
       = parameters (body (actor example_agent))"
    by simp
  show ?thesis
    using h p example_predict example_actor_training by simp
qed

section \<open>The steps of a training iteration\<close>

lemma get_module_update:
  "get_module nid (ag\<lparr>actor := a\<rparr>) = (if nid = Actor then body a else get_module nid ag)"
  "get_module nid (ag\<lparr>actor_target := a\<rparr>) = (if nid = ActorTarget then body a else get_module nid ag)"
  "get_module nid (ag\<lparr>critic := c\<rparr>) = (if nid = Critic then c else get_module nid ag)"
  "get_module nid (ag\<lparr>critic_target := c\<rparr>) = (if nid = CriticTarget then c else get_module nid ag)"
  "get_module nid (ag\<lparr>actor_optimizer := opt\<rparr>) = get_module nid ag"
  "get_module nid (ag\<lparr>critic_optimizer := opt\<rparr>) = get_module nid ag"
  by (cases nid; simp add: get_module_def)+

lemma ew_Inr:
  assumes "ew f x y = Inr z"
  shows "length (val x) = length (val y)" and "val z = map2 f (val x) (val y)"
    and "graph z = graph x \<union> graph y"
  using assms by (auto simp: ew_def split: if_splits)

lemma target_Q_Inr:
  assumes "target_Q N discount smp nz ag = Inr (tq, ag1)"
  obtains u a' q c' where
    "actor_call N ActorTarget (actor_target ag) nz (b_next_state smp) (b_next_dist smp)
        (b_next_angle smp) None = Inr (u, a')"
    and "CriticCNN_forward N CriticTarget (critic_target ag) (b_next_state smp) u = Inr (q, c')"
    and "length (b_done smp) = length (val q)" and "length (b_reward smp) = length (val q)"
    and "val tq = map2 (+) (b_reward smp)
                    (map2 (*) (map (\<lambda>v. v * discount) (map (\<lambda>d. 1 - d) (b_done smp))) (val q))"
    and "graph tq = {}"
    and "ag1 = ag\<lparr>actor_target := a', critic_target := c'\<rparr>"
proof -
  from assms obtain u a' q c' p where
    1: "actor_call N ActorTarget (actor_target ag) nz (b_next_state smp) (b_next_dist smp)
        (b_next_angle smp) None = Inr (u, a')"
    and 2: "CriticCNN_forward N CriticTarget (critic_target ag) (b_next_state smp) u = Inr (q, c')"
    and 3: "ew (*) (scale discount (leaf (map (\<lambda>d. 1 - d) (b_done smp)))) q = Inr p"
    and 4: "ew (+) (leaf (b_reward smp)) (detach p) = Inr tq"
    and 5: "ag1 = ag\<lparr>actor_target := a', critic_target := c'\<rparr>"
    by (auto simp: target_Q_def Let_def split: sum.splits prod.splits)
  note e3 = ew_Inr[OF 3]
  note e4 = ew_Inr[OF 4]
  have lp: "length (val p) = length (val q)"
    using e3(1,2) by (simp add: scale_def leaf_def)
  show ?thesis
  proof (rule that[OF 1 2 _ _ _ _ 5])
    show "length (b_done smp) = length (val q)"
      using e3(1) by (simp add: scale_def leaf_def)
    show "length (b_reward smp) = length (val q)"
      using e4(1) lp by (simp add: detach_def leaf_def)
    show "val tq = map2 (+) (b_reward smp)
                    (map2 (*) (map (\<lambda>v. v * discount) (map (\<lambda>d. 1 - d) (b_done smp))) (val q))"
      using e4(2) e3(2) by (simp add: scale_def leaf_def detach_def)
    show "graph tq = {}"
      using e4(3) by (simp add: leaf_def detach_def)
  qed
qed

lemma backward_Inr:
  assumes "backward g loss ag = Inr ag'"
  shows "graph loss \<noteq> {}"
    and "get_module nid ag' = (if nid \<in> graph loss then accumulate (g nid) (get_module nid ag)
                               else get_module nid ag)"
    and "flat ag' = flat ag" and "cls (actor ag') = cls (actor ag)"
    and "cls (actor_target ag') = cls (actor_target ag)"
    and "max_action (actor ag') = max_action (actor ag)"
    and "max_action (actor_target ag') = max_action (actor_target ag)"
    and "actor_optimizer ag' = actor_optimizer ag"
    and "critic_optimizer ag' = critic_optimizer ag"
proof -
  have ne: "graph loss \<noteq> {}" and
    ag': "ag' = fold (backward_into g (graph loss)) [Actor, ActorTarget, Critic, CriticTarget] ag"
    using assms by (auto simp: backward_def split: if_splits)
  show "graph loss \<noteq> {}" by (rule ne)
  show "get_module nid ag' = (if nid \<in> graph loss then accumulate (g nid) (get_module nid ag)
                               else get_module nid ag)"
    unfolding ag' by (cases nid) (simp_all add: backward_into_def get_set_module)
  show "flat ag' = flat ag" "cls (actor ag') = cls (actor ag)"
    "cls (actor_target ag') = cls (actor_target ag)"
    "max_action (actor ag') = max_action (actor ag)"
    "max_action (actor_target ag') = max_action (actor_target ag)"
    "actor_optimizer ag' = actor_optimizer ag"
    "critic_optimizer ag' = critic_optimizer ag"
    unfolding ag' by (simp_all add: backward_into_def set_module_fields)
qed

lemma opt_zero_grad_keeps:
  "get_module nid (opt_zero_grad N opt ag)
     = (if nid = opt_params opt then zero_grad (set_to_none N) (get_module nid ag)
        else get_module nid ag)"
  "flat (opt_zero_grad N opt ag) = flat ag"
  "cls (actor (opt_zero_grad N opt ag)) = cls (actor ag)"
  "cls (actor_target (opt_zero_grad N opt ag)) = cls (actor_target ag)"
  "max_action (actor (opt_zero_grad N opt ag)) = max_action (actor ag)"
  "max_action (actor_target (opt_zero_grad N opt ag)) = max_action (actor_target ag)"
  "actor_optimizer (opt_zero_grad N opt ag) = actor_optimizer ag"
  "critic_optimizer (opt_zero_grad N opt ag) = critic_optimizer ag"
  by (auto simp: opt_zero_grad_def get_set_module set_module_fields)

lemma opt_step_keeps:
  "get_module nid (opt_step N opt ag)
     = (if nid = opt_params opt then step_module N opt (get_module nid ag)
        else get_module nid ag)"
  "flat (opt_step N opt ag) = flat ag"
  "cls (actor (opt_step N opt ag)) = cls (actor ag)"
  "cls (actor_target (opt_step N opt ag)) = cls (actor_target ag)"
  "max_action (actor (opt_step N opt ag)) = max_action (actor ag)"
  "max_action (actor_target (opt_step N opt ag)) = max_action (actor_target ag)"
  "actor_optimizer (opt_step N opt ag) = actor_optimizer ag"
  "critic_optimizer (opt_step N opt ag) = critic_optimizer ag"
  by (auto simp: opt_step_def get_set_module set_module_fields)

lemma critic_step_keeps:
  "get_module nid (critic_step N ag)
     = (if nid = opt_params (critic_optimizer ag)
        then step_module N (critic_optimizer ag) (get_module nid ag)
        else get_module nid ag)"
  "flat (critic_step N ag) = flat ag"
  "cls (actor (critic_step N ag)) = cls (actor ag)"
  "cls (actor_target (critic_step N ag)) = cls (actor_target ag)"
  "max_action (actor (critic_step N ag)) = max_action (actor ag)"
  "max_action (actor_target (critic_step N ag)) = max_action (actor_target ag)"
  "actor_optimizer (critic_step N ag) = actor_optimizer ag"
  "opt_params (critic_optimizer (critic_step N ag)) = opt_params (critic_optimizer ag)"
  "lr (critic_optimizer (critic_step N ag)) = lr (critic_optimizer ag)"
  by (simp_all add: critic_step_def get_module_update opt_step_keeps step_state_def)

lemma actor_step_keeps:
  "get_module nid (actor_step N ag)
     = (if nid = opt_params (actor_optimizer ag)
        then step_module N (actor_optimizer ag) (get_module nid ag)
        else get_module nid ag)"
  "flat (actor_step N ag) = flat ag"
  "cls (actor (actor_step N ag)) = cls (actor ag)"
  "cls (actor_target (actor_step N ag)) = cls (actor_target ag)"
  "max_action (actor (actor_step N ag)) = max_action (actor ag)"
  "max_action (actor_target (actor_step N ag)) = max_action (actor_target ag)"
  "critic_optimizer (actor_step N ag) = critic_optimizer ag"
  "opt_params (actor_optimizer (actor_step N ag)) = opt_params (actor_optimizer ag)"
  "lr (actor_optimizer (actor_step N ag)) = lr (actor_optimizer ag)"
  by (simp_all add: actor_step_def get_module_update opt_step_keeps step_state_def)

lemma soft_updates_keeps:
  "get_module nid (soft_updates tau ag)
     = (case nid of
          Actor \<Rightarrow> body (actor ag)
        | Critic \<Rightarrow> critic ag
        | ActorTarget \<Rightarrow> soft_update_module tau (body (actor ag)) (body (actor_target ag))
        | CriticTarget \<Rightarrow> soft_update_module tau (critic ag) (critic_target ag))"
  "flat (soft_updates tau ag) = flat ag"
  "actor (soft_updates tau ag) = actor ag"
  "critic (soft_updates tau ag) = critic ag"
  "cls (actor_target (soft_updates tau ag)) = cls (actor_target ag)"
  "max_action (actor_target (soft_updates tau ag)) = max_action (actor_target ag)"
  "actor_optimizer (soft_updates tau ag) = actor_optimizer ag"
  "critic_optimizer (soft_updates tau ag) = critic_optimizer ag"
  by (cases nid; simp add: soft_updates_def get_module_def)+

lemma mse_loss_graph: "graph (mse_loss x y) = graph x \<union> graph y"
  by (simp add: mse_loss_def)

lemma critic_backward_Inr:
  assumes "critic_backward N discount smp nz ag = Inr ag2"
  obtains tq ag1 cq c' where "target_Q N discount smp nz ag = Inr (tq, ag1)"
    and "CriticCNN_forward N Critic (critic ag1) (b_state smp) (leaf (b_action smp)) = Inr (cq, c')"
    and "backward (grad_critic_loss N (critic ag1) smp (val tq)) (mse_loss cq tq)
           (opt_zero_grad N (critic_optimizer ag1) (ag1\<lparr>critic := c'\<rparr>)) = Inr ag2"
    and "graph (mse_loss cq tq) = {Critic}"
proof -
  from assms obtain tq ag1 cq c' where 1: "target_Q N discount smp nz ag = Inr (tq, ag1)"
    and 2: "CriticCNN_forward N Critic (critic ag1) (b_state smp) (leaf (b_action smp)) = Inr (cq, c')"
    and 3: "backward (grad_critic_loss N (critic ag1) smp (val tq)) (mse_loss cq tq)
           (opt_zero_grad N (critic_optimizer ag1) (ag1\<lparr>critic := c'\<rparr>)) = Inr ag2"
    by (auto simp: critic_backward_def split: sum.splits prod.splits)
  have "graph tq = {}" using 1 by (rule target_Q_Inr)
  moreover have "graph cq = {Critic}"
    using CriticCNN_forward_Inr(2)[OF 2] by (simp add: leaf_def)
  ultimately have "graph (mse_loss cq tq) = {Critic}" by (simp add: mse_loss_graph)
  then show ?thesis using that[OF 1 2 3] by simp
qed

text \<open>The state of the four networks between the start of an iteration and the critic step.\<close>

lemma critic_backward_modules:
  assumes "critic_backward N discount smp nz ag = Inr ag2"
  shows "\<exists>m. parameters m = parameters (get_module nid ag) \<and> arch m = arch (get_module nid ag)
             \<and> training m = training (get_module nid ag) \<and> grad m = grad (get_module nid ag)
             \<and> (nid = Actor \<longrightarrow> m = get_module nid ag)
             \<and> get_module nid ag2
                 = (let z = (if nid = opt_params (critic_optimizer ag)
                             then zero_grad (set_to_none N) m else m)
                    in if nid = Critic
                       then accumulate
                              (grad_critic_loss N (critic ag) smp
                                 (val (fst (projr (target_Q N discount smp nz ag)))) Critic) z
                       else z)"
    and "flat ag2 = flat ag" and "cls (actor ag2) = cls (actor ag)"
    and "cls (actor_target ag2) = cls (actor_target ag)"
    and "max_action (actor ag2) = max_action (actor ag)"
    and "max_action (actor_target ag2) = max_action (actor_target ag)"
    and "actor_optimizer ag2 = actor_optimizer ag"
    and "critic_optimizer ag2 = critic_optimizer ag"
proof -
  from assms obtain tq ag1 cq c' where 1: "target_Q N discount smp nz ag = Inr (tq, ag1)"
    and 2: "CriticCNN_forward N Critic (critic ag1) (b_state smp) (leaf (b_action smp)) = Inr (cq, c')"
    and 3: "backward (grad_critic_loss N (critic ag1) smp (val tq)) (mse_loss cq tq)
           (opt_zero_grad N (critic_optimizer ag1) (ag1\<lparr>critic := c'\<rparr>)) = Inr ag2"
    and g: "graph (mse_loss cq tq) = {Critic}"
    by (rule critic_backward_Inr)
  from 1 obtain u a' q ct where
    t1: "actor_call N ActorTarget (actor_target ag) nz (b_next_state smp) (b_next_dist smp)
        (b_next_angle smp) None = Inr (u, a')"
    and t2: "CriticCNN_forward N CriticTarget (critic_target ag) (b_next_state smp) u = Inr (q, ct)"
    and ag1: "ag1 = ag\<lparr>actor_target := a', critic_target := ct\<rparr>"
    by (rule target_Q_Inr)
  note ka = actor_call_keeps[OF t1]
  note kt = CriticCNN_forward_keeps[OF t2]
  have c1: "critic ag1 = critic ag" by (simp add: ag1)
  note kc = CriticCNN_forward_keeps[OF 2[unfolded c1]]
  note bw = backward_Inr[OF 3]
  let ?m = "case nid of Actor \<Rightarrow> body (actor ag) | ActorTarget \<Rightarrow> body a'
                       | Critic \<Rightarrow> c' | CriticTarget \<Rightarrow> ct"
  have pre: "get_module nid (ag1\<lparr>critic := c'\<rparr>) = ?m"
    by (cases nid) (simp_all add: ag1 get_module_def)
  have tq: "fst (projr (target_Q N discount smp nz ag)) = tq" using 1 by simp
  have copt: "critic_optimizer ag1 = critic_optimizer ag" by (simp add: ag1)
  show "\<exists>m. parameters m = parameters (get_module nid ag) \<and> arch m = arch (get_module nid ag)
             \<and> training m = training (get_module nid ag) \<and> grad m = grad (get_module nid ag)
             \<and> (nid = Actor \<longrightarrow> m = get_module nid ag)
             \<and> get_module nid ag2
                 = (let z = (if nid = opt_params (critic_optimizer ag)
                             then zero_grad (set_to_none N) m else m)
                    in if nid = Critic
                       then accumulate
                              (grad_critic_loss N (critic ag) smp
                                 (val (fst (projr (target_Q N discount smp nz ag)))) Critic) z
                       else z)"
  proof (intro exI[of _ ?m] conjI)
    show "parameters ?m = parameters (get_module nid ag)"
      by (cases nid) (simp_all add: get_module_def ka kt kc)
    show "arch ?m = arch (get_module nid ag)"
      by (cases nid) (simp_all add: get_module_def ka kt kc)
    show "training ?m = training (get_module nid ag)"
      by (cases nid) (simp_all add: get_module_def ka kt kc)
    show "grad ?m = grad (get_module nid ag)"
      by (cases nid) (simp_all add: get_module_def ka kt kc)
    show "nid = Actor \<longrightarrow> ?m = get_module nid ag"
      by (simp add: get_module_def)
    show "get_module nid ag2
                 = (let z = (if nid = opt_params (critic_optimizer ag)
                             then zero_grad (set_to_none N) ?m else ?m)
                    in if nid = Critic
                       then accumulate
                              (grad_critic_loss N (critic ag) smp
                                 (val (fst (projr (target_Q N discount smp nz ag)))) Critic) z
                       else z)"
      unfolding bw(2) g tq opt_zero_grad_keeps(1) pre copt c1 by (simp add: Let_def)
  qed
  show "flat ag2 = flat ag" by (simp add: bw opt_zero_grad_keeps ag1)
  show "cls (actor ag2) = cls (actor ag)" by (simp add: bw opt_zero_grad_keeps ag1)
  show "cls (actor_target ag2) = cls (actor_target ag)" by (simp add: bw opt_zero_grad_keeps ag1 ka)
  show "max_action (actor ag2) = max_action (actor ag)" by (simp add: bw opt_zero_grad_keeps ag1)
  show "max_action (actor_target ag2) = max_action (actor_target ag)"
    by (simp add: bw opt_zero_grad_keeps ag1 ka)
  show "actor_optimizer ag2 = actor_optimizer ag" by (simp add: bw opt_zero_grad_keeps ag1)
  show "critic_optimizer ag2 = critic_optimizer ag" by (simp add: bw opt_zero_grad_keeps ag1)
qed

lemma actor_backward_Inr:
  assumes "actor_backward N smp nz ag = Inr ag2"
  obtains u a' q c' where
    "actor_call N Actor (actor ag) nz (b_state smp) (b_dist smp) (b_angle smp) None = Inr (u, a')"
    and "CriticCNN_forward N Critic (critic ag) (b_state smp) u = Inr (q, c')"
    and "backward (grad_actor_loss N (critic ag) (actor ag) smp nz) (actor_loss_of q)
           (opt_zero_grad N (actor_optimizer ag) (ag\<lparr>actor := a', critic := c'\<rparr>)) = Inr ag2"
    and "graph (actor_loss_of q) = insert Critic (graph u)"
  using assms CriticCNN_forward_Inr(2)
  by (fastforce simp: actor_backward_def actor_loss_of_def split: sum.splits prod.splits)

text \<open>The state of the four networks between the critic step and the actor step.\<close>

lemma actor_backward_modules:
  assumes "actor_backward N smp nz ag = Inr ag2"
  shows "\<exists>m. parameters m = parameters (get_module nid ag) \<and> arch m = arch (get_module nid ag)
             \<and> training m = training (get_module nid ag) \<and> grad m = grad (get_module nid ag)
             \<and> (nid = ActorTarget \<or> nid = CriticTarget \<longrightarrow> m = get_module nid ag)
             \<and> get_module nid ag2
                 = (let z = (if nid = opt_params (actor_optimizer ag)
                             then zero_grad (set_to_none N) m else m)
                    in if nid \<in> insert Critic (graph (fst (projr
                               (actor_call N Actor (actor ag) nz (b_state smp) (b_dist smp)
                                  (b_angle smp) None))))
                       then accumulate (grad_actor_loss N (critic ag) (actor ag) smp nz nid) z
                       else z)"
    and "flat ag2 = flat ag" and "cls (actor ag2) = cls (actor ag)"
    and "cls (actor_target ag2) = cls (actor_target ag)"
    and "max_action (actor ag2) = max_action (actor ag)"
    and "max_action (actor_target ag2) = max_action (actor_target ag)"
    and "actor_optimizer ag2 = actor_optimizer ag"
    and "critic_optimizer ag2 = critic_optimizer ag"
proof -
  from assms obtain u a' q c' where
    1: "actor_call N Actor (actor ag) nz (b_state smp) (b_dist smp) (b_angle smp) None = Inr (u, a')"
    and 2: "CriticCNN_forward N Critic (critic ag) (b_state smp) u = Inr (q, c')"
    and 3: "backward (grad_actor_loss N (critic ag) (actor ag) smp nz) (actor_loss_of q)
           (opt_zero_grad N (actor_optimizer ag) (ag\<lparr>actor := a', critic := c'\<rparr>)) = Inr ag2"
    and g: "graph (actor_loss_of q) = insert Critic (graph u)"
    by (rule actor_backward_Inr)
  note ka = actor_call_keeps[OF 1]
  note kc = CriticCNN_forward_keeps[OF 2]
  note bw = backward_Inr[OF 3]
  let ?m = "case nid of Actor \<Rightarrow> body a' | ActorTarget \<Rightarrow> body (actor_target ag)
                       | Critic \<Rightarrow> c' | CriticTarget \<Rightarrow> critic_target ag"
  have pre: "get_module nid (ag\<lparr>actor := a', critic := c'\<rparr>) = ?m"
    by (cases nid) (simp_all add: get_module_def)
  have u: "fst (projr (actor_call N Actor (actor ag) nz (b_state smp) (b_dist smp)
                                  (b_angle smp) None)) = u"
    using 1 by simp
  have aopt: "actor_optimizer (ag\<lparr>actor := a', critic := c'\<rparr>) = actor_optimizer ag" by simp
  show "\<exists>m. parameters m = parameters (get_module nid ag) \<and> arch m = arch (get_module nid ag)
             \<and> training m = training (get_module nid ag) \<and> grad m = grad (get_module nid ag)
             \<and> (nid = ActorTarget \<or> nid = CriticTarget \<longrightarrow> m = get_module nid ag)
             \<and> get_module nid ag2
                 = (let z = (if nid = opt_params (actor_optimizer ag)
                             then zero_grad (set_to_none N) m else m)
                    in if nid \<in> insert Critic (graph (fst (projr
                               (actor_call N Actor (actor ag) nz (b_state smp) (b_dist smp)
                                  (b_angle smp) None))))
                       then accumulate (grad_actor_loss N (critic ag) (actor ag) smp nz nid) z
                       else z)"
  proof (intro exI[of _ ?m] conjI)
    show "parameters ?m = parameters (get_module nid ag)"
      by (cases nid) (simp_all add: get_module_def ka kc)
    show "arch ?m = arch (get_module nid ag)"
      by (cases nid) (simp_all add: get_module_def ka kc)
    show "training ?m = training (get_module nid ag)"
      by (cases nid) (simp_all add: get_module_def ka kc)
    show "grad ?m = grad (get_module nid ag)"
      by (cases nid) (simp_all add: get_module_def ka kc)
    show "nid = ActorTarget \<or> nid = CriticTarget \<longrightarrow> ?m = get_module nid ag"
      by (auto simp: get_module_def)
    show "get_module nid ag2
                 = (let z = (if nid = opt_params (actor_optimizer ag)
                             then zero_grad (set_to_none N) ?m else ?m)
                    in if nid \<in> insert Critic (graph (fst (projr
                               (actor_call N Actor (actor ag) nz (b_state smp) (b_dist smp)
                                  (b_angle smp) None))))
                       then accumulate (grad_actor_loss N (critic ag) (actor ag) smp nz nid) z
                       else z)"
      unfolding bw(2) g u opt_zero_grad_keeps(1) pre by (simp add: Let_def)
  qed
  show "flat ag2 = flat ag" by (simp add: bw opt_zero_grad_keeps)
  show "cls (actor ag2) = cls (actor ag)" by (simp add: bw opt_zero_grad_keeps ka)
  show "cls (actor_target ag2) = cls (actor_target ag)" by (simp add: bw opt_zero_grad_keeps)
  show "max_action (actor ag2) = max_action (actor ag)" by (simp add: bw opt_zero_grad_keeps ka)
  show "max_action (actor_target ag2) = max_action (actor_target ag)"
    by (simp add: bw opt_zero_grad_keeps)
  show "actor_optimizer ag2 = actor_optimizer ag" by (simp add: bw opt_zero_grad_keeps)
  show "critic_optimizer ag2 = critic_optimizer ag" by (simp add: bw opt_zero_grad_keeps)
qed

lemma critic_backward_keeps:
  assumes "critic_backward N discount smp nz ag = Inr ag2"
  shows "parameters (get_module nid ag2) = parameters (get_module nid ag)"
    and "arch (get_module nid ag2) = arch (get_module nid ag)"
    and "training (get_module nid ag2) = training (get_module nid ag)"
proof -
  from critic_backward_modules(1)[OF assms, of nid] obtain m where
    m: "parameters m = parameters (get_module nid ag)" "arch m = arch (get_module nid ag)"
       "training m = training (get_module nid ag)"
    and g: "get_module nid ag2
                 = (let z = (if nid = opt_params (critic_optimizer ag)
                             then zero_grad (set_to_none N) m else m)
                    in if nid = Critic
                       then accumulate
                              (grad_critic_loss N (critic ag) smp
                                 (val (fst (projr (target_Q N discount smp nz ag)))) Critic) z
                       else z)"
    by blast
  show "parameters (get_module nid ag2) = parameters (get_module nid ag)"
    unfolding g by (simp add: Let_def accumulate_keeps zero_grad_keeps m)
  show "arch (get_module nid ag2) = arch (get_module nid ag)"
    unfolding g by (simp add: Let_def accumulate_keeps zero_grad_keeps m)
  show "training (get_module nid ag2) = training (get_module nid ag)"
    unfolding g by (simp add: Let_def accumulate_keeps zero_grad_keeps m)
qed

lemma actor_backward_keeps:
  assumes "actor_backward N smp nz ag = Inr ag2"
  shows "parameters (get_module nid ag2) = parameters (get_module nid ag)"
    and "arch (get_module nid ag2) = arch (get_module nid ag)"
    and "training (get_module nid ag2) = training (get_module nid ag)"
proof -
  from actor_backward_modules(1)[OF assms, of nid] obtain m where
    m: "parameters m = parameters (get_module nid ag)" "arch m = arch (get_module nid ag)"
       "training m = training (get_module nid ag)"
    and g: "get_module nid ag2
                 = (let z = (if nid = opt_params (actor_optimizer ag)
                             then zero_grad (set_to_none N) m else m)
                    in if nid \<in> insert Critic (graph (fst (projr
                               (actor_call N Actor (actor ag) nz (b_state smp) (b_dist smp)
                                  (b_angle smp) None))))
                       then accumulate (grad_actor_loss N (critic ag) (actor ag) smp nz nid) z
                       else z)"
    by blast
  show "parameters (get_module nid ag2) = parameters (get_module nid ag)"
    unfolding g by (simp add: Let_def accumulate_keeps zero_grad_keeps m)
  show "arch (get_module nid ag2) = arch (get_module nid ag)"
    unfolding g by (simp add: Let_def accumulate_keeps zero_grad_keeps m)
  show "training (get_module nid ag2) = training (get_module nid ag)"
    unfolding g by (simp add: Let_def accumulate_keeps zero_grad_keeps m)
qed

section \<open>What no method writes\<close>

lemma update_critic_Inr:
  assumes "update_critic N discount smp nz ag = Inr ag'"
  obtains ag2 where "critic_backward N discount smp nz ag = Inr ag2" and "ag' = critic_step N ag2"
  using assms by (auto simp: update_critic_def split: sum.splits)

lemma update_actor_Inr:
  assumes "update_actor N smp nz ag = Inr ag'"
  obtains ag2 where "actor_backward N smp nz ag = Inr ag2" and "ag' = actor_step N ag2"
  using assms by (auto simp: update_actor_def split: sum.splits)

lemma update_critic_fixed:
  assumes "update_critic N discount smp nz ag = Inr ag'"
  shows "fixed ag' = fixed ag"
proof -
  from assms obtain ag2 where b: "critic_backward N discount smp nz ag = Inr ag2"
    and s: "ag' = critic_step N ag2"
    by (rule update_critic_Inr)
  note m = critic_backward_modules(2-8)[OF b]
  show ?thesis
  proof (rule fixed_eqI)
    fix nid show "arch (get_module nid ag') = arch (get_module nid ag)"
      unfolding s critic_step_keeps(1)
      by (simp add: step_module_keeps critic_backward_keeps(2)[OF b])
  qed (simp_all add: s critic_step_keeps m)
qed

lemma update_actor_fixed:
  assumes "update_actor N smp nz ag = Inr ag'"
  shows "fixed ag' = fixed ag"
proof -
  from assms obtain ag2 where b: "actor_backward N smp nz ag = Inr ag2"
    and s: "ag' = actor_step N ag2"
    by (rule update_actor_Inr)
  note m = actor_backward_modules(2-8)[OF b]
  show ?thesis
  proof (rule fixed_eqI)
    fix nid show "arch (get_module nid ag') = arch (get_module nid ag)"
      unfolding s actor_step_keeps(1)
      by (simp add: step_module_keeps actor_backward_keeps(2)[OF b])
  qed (simp_all add: s actor_step_keeps m)
qed

lemma soft_updates_fixed: "fixed (soft_updates tau ag) = fixed ag"
proof (rule fixed_eqI)
  fix nid show "arch (get_module nid (soft_updates tau ag)) = arch (get_module nid ag)"
    unfolding soft_updates_keeps(1)
    by (cases nid) (simp_all add: soft_update_module_keeps get_module_def)
qed (simp_all add: soft_updates_keeps)

lemma train_iteration_Inr:
  assumes "train_iteration N rb batch_size discount tau nz it ag = Inr ag'"
  obtains ag1 ag2 where
    "update_critic N discount (sample_call rb it batch_size ag) (fst (nz it)) ag = Inr ag1"
    and "update_actor N (sample_call rb it batch_size ag) (snd (nz it)) ag1 = Inr ag2"
    and "ag' = soft_updates tau ag2"
  using assms by (auto simp: train_iteration_def Let_def split: sum.splits)

lemma train_iteration_fixed:
  assumes "train_iteration N rb batch_size discount tau nz it ag = Inr ag'"
  shows "fixed ag' = fixed ag"
proof -
  from assms obtain ag1 ag2 where
    "update_critic N discount (sample_call rb it batch_size ag) (fst (nz it)) ag = Inr ag1"
    and "update_actor N (sample_call rb it batch_size ag) (snd (nz it)) ag1 = Inr ag2"
    and "ag' = soft_updates tau ag2"
    by (rule train_iteration_Inr)
  then show ?thesis
    using update_critic_fixed update_actor_fixed soft_updates_fixed by metis
qed

lemma train_loop_fixed:
  "train_loop N rb batch_size discount tau nz k it ag = Inr ag' \<Longrightarrow> fixed ag' = fixed ag"
proof (induction k arbitrary: it ag)
  case 0
  then show ?case by simp
next
  case (Suc k)
  from Suc.prems obtain ag1 where
    1: "train_iteration N rb batch_size discount tau nz it ag = Inr ag1"
    and 2: "train_loop N rb batch_size discount tau nz k (Suc it) ag1 = Inr ag'"
    by (auto split: sum.splits)
  show ?case using Suc.IH[OF 2] train_iteration_fixed[OF 1] by simp
qed

lemma train_fixed:
  "train N rb iterations batch_size discount tau nz ag = Inr ag' \<Longrightarrow> fixed ag' = fixed ag"
  unfolding train_def by (rule train_loop_fixed)

lemma load_into_keeps:
  assumes "load_into fs path m = Inr m'"
  shows "arch m' = arch m" and "training m' = training m" and "grad m' = grad m"
proof -
  from assms obtain sd where "load_state_dict m sd = Inr m'"
    by (auto simp: load_into_def split: sum.splits)
  then show "arch m' = arch m" and "training m' = training m" and "grad m' = grad m"
    using load_state_dict_arch load_state_dict_keeps by blast+
qed

lemma load_Inr:
  assumes "load ag filename directory fs = Inr ag'"
  obtains ab c where "load_into fs (actor_path directory filename) (body (actor ag)) = Inr ab"
    and "load_into fs (critic_path directory filename) (critic ag) = Inr c"
    and "ag' = ag\<lparr>actor := (actor ag)\<lparr>body := ab\<rparr>, critic := c\<rparr>"
  using assms by (auto simp: load_def split: sum.splits)

lemma load_fixed:
  assumes "load ag filename directory fs = Inr ag'"
  shows "fixed ag' = fixed ag"
proof -
  from assms obtain ab c where a: "load_into fs (actor_path directory filename) (body (actor ag)) = Inr ab"
    and c: "load_into fs (critic_path directory filename) (critic ag) = Inr c"
    and ag': "ag' = ag\<lparr>actor := (actor ag)\<lparr>body := ab\<rparr>, critic := c\<rparr>"
    by (rule load_Inr)
  show ?thesis
  proof (rule fixed_eqI)
    fix nid show "arch (get_module nid ag') = arch (get_module nid ag)"
      by (cases nid) (simp_all add: ag' get_module_def load_into_keeps(1)[OF a] load_into_keeps(1)[OF c])
  qed (simp_all add: ag')
qed

lemma later_fixed: "later ag0 ag \<Longrightarrow> fixed ag = fixed ag0"
proof (induction rule: later.induct)
  case (same ag)
  show ?case by simp
next
  case (predicted ag0 ag N state dists angles only_pid nz act ag')
  then show ?case using predict_fixed by metis
next
  case (trained ag0 ag N rb iterations batch_size discount tau nzs ag')
  then show ?case using train_fixed by metis
next
  case (loaded ag0 ag filename directory fs ag')
  then show ?case using load_fixed by metis
qed

lemma fixed_constructed:
  assumes "DDPG_init fs init sdim action_dim max_act net_type critic_chkp = Inr ag"
  shows "fx_flat (fixed ag) = False"
    and "fx_actor_opt (fixed ag) = Actor" and "fx_critic_opt (fixed ag) = Critic"
    and "fx_actor_cls (fixed ag) = (if net_type = ''pid'' then ActorPID else ActorCNN)"
    and "fx_actor_target_cls (fixed ag) = fx_actor_cls (fixed ag)"
    and "fx_archs (fixed ag) ActorTarget = fx_archs (fixed ag) Actor"
    and "fx_archs (fixed ag) CriticTarget = fx_archs (fixed ag) Critic"
proof -
  note t = DDPG_init_targets[OF assms]
  show "fx_flat (fixed ag) = False" using t(6) by (simp add: fixed_def)
  show "fx_actor_opt (fixed ag) = Actor" using t(7) by (simp add: fixed_def)
  show "fx_critic_opt (fixed ag) = Critic" using t(8) by (simp add: fixed_def)
  show "fx_actor_cls (fixed ag) = (if net_type = ''pid'' then ActorPID else ActorCNN)"
    using t(4) by (simp add: fixed_def fresh_actor_def ActorPID_init_def ActorCNN_init_def Let_def)
  show "fx_actor_target_cls (fixed ag) = fx_actor_cls (fixed ag)"
    using t(5) by (simp add: fixed_def)
  show "fx_archs (fixed ag) ActorTarget = fx_archs (fixed ag) Actor"
    using t(1) by (simp add: fixed_def get_module_def arch_def)
  show "fx_archs (fixed ag) CriticTarget = fx_archs (fixed ag) Critic"
    using t(2) by (simp add: fixed_def get_module_def arch_def)
qed

section \<open>The controller-only agent and the flat flag\<close>

lemma example_pid_agent_constructed:
  "DDPG_init Map.empty example_init [3, 120, 160] 2 1 ''pid'' None = Inr example_pid_agent"
  unfolding example_pid_agent_def
  by (simp add: DDPG_init_unfold fresh_critic_def truthy_def)

text \<open>
  C9. On an agent built with \<^verbatim>\<open>net_type="pid"\<close>, at any later time, the actor is an
  \<^verbatim>\<open>ActorPID\<close> and every call of \<^verbatim>\<open>predict\<close> raises: the assertion on the channels
  when the state does not have 3 of them, and otherwise the \<^verbatim>\<open>TypeError\<close> of calling
  \<^verbatim>\<open>ActorPID.forward\<close> with a fourth positional argument. No call returns an action.
\<close>

theorem pid_predict_fails:
  assumes "DDPG_init fs init sdim action_dim max_act ''pid'' critic_chkp = Inr ag0"
    and "later ag0 ag"
  shows "cls (actor ag) = ActorPID
       \<and> predict N ag state ds gs only_pid nz
           = Inl (case shape state of [] \<Rightarrow> IndexError
                  | c # rest \<Rightarrow> if c \<noteq> 3 then AssertionError else TypeError)
       \<and> isl (predict N ag state ds gs only_pid nz)"
proof -
  have "fx_actor_cls (fixed ag0) = ActorPID"
    using fixed_constructed(4)[OF assms(1)] by simp
  then have "fx_actor_cls (fixed ag) = ActorPID"
    using later_fixed[OF assms(2)] by simp
  then have c: "cls (actor ag) = ActorPID" by (simp add: fixed_def)
  show ?thesis
    using c by (simp add: predict_pid)
qed

theorem pid_predict_fails_witness:
  "DDPG_init Map.empty example_init [3, 120, 160] 2 1 ''pid'' None = Inr example_pid_agent
   \<and> later example_pid_agent example_pid_agent
   \<and> cls (actor example_pid_agent) = ActorPID
   \<and> predict example_numerics example_pid_agent example_obs [1 / 2] [1 / 4] False 0
       = Inl TypeError"
proof -
  have l: "later example_pid_agent example_pid_agent" by (rule later.same)
  have sh: "shape example_obs = [3, 120, 160]" by (simp add: example_obs_def)
  show ?thesis
    using pid_predict_fails[OF example_pid_agent_constructed l,
        of example_numerics example_obs "[1 / 2]" "[1 / 4]" False 0]
      example_pid_agent_constructed l
    by (simp add: sh)
qed

lemma train_loop_flat:
  assumes "flat ag = False"
  shows "train_loop N rb batch_size discount tau nz k it ag
       = train_loop N (\<lambda>i n f. rb i n False) batch_size discount tau nz k it ag"
  using assms
proof (induction k arbitrary: it ag)
  case 0
  show ?case by simp
next
  case (Suc k)
  have it: "train_iteration N rb batch_size discount tau nz it ag
      = train_iteration N (\<lambda>i n f. rb i n False) batch_size discount tau nz it ag"
    using Suc.prems by (simp add: train_iteration_def sample_call_def)
  show ?case
  proof (cases "train_iteration N rb batch_size discount tau nz it ag")
    case (Inl e)
    then show ?thesis using it by simp
  next
    case (Inr ag1)
    have "flat ag1 = False"
      using fixed_fields(1)[OF train_iteration_fixed[OF Inr]] Suc.prems by simp
    then show ?thesis using Inr it Suc.IH[of ag1 "Suc it"] by simp
  qed
qed

text \<open>
  C10. The constructor sets \<^verbatim>\<open>flat\<close> to \<^verbatim>\<open>False\<close> whatever the variant, and no method
  writes it: at any later time it is \<^verbatim>\<open>False\<close>. So every call of
  \<^verbatim>\<open>replay_buffer.sample\<close> in \<^verbatim>\<open>train\<close> passes \<^verbatim>\<open>flat=False\<close> (training reads the
  buffer at \<^verbatim>\<open>flat=False\<close> only), and \<^verbatim>\<open>predict\<close> never takes the branch that
  flattens the state.
\<close>

theorem flat_always_false:
  assumes "DDPG_init fs init sdim action_dim max_act net_type critic_chkp = Inr ag0"
    and "later ag0 ag"
  shows "flat ag0 = False \<and> flat ag = False
       \<and> sample_call rb it batch_size ag = rb it batch_size False
       \<and> train N rb iterations batch_size discount tau nz ag
           = train N (\<lambda>i n f. rb i n False) iterations batch_size discount tau nz ag
       \<and> to_batch ag state = expand_dims state"
proof -
  have f0: "flat ag0 = False" using fixed_constructed(1)[OF assms(1)] by (simp add: fixed_def)
  have f: "flat ag = False"
    using fixed_fields(1)[OF later_fixed[OF assms(2)]] f0 by simp
  show ?thesis
    using f0 f train_loop_flat[OF f] by (simp add: sample_call_def train_def to_batch_def)
qed

theorem flat_always_false_witness:
  "DDPG_init example_fs example_init [3, 120, 160] 2 1 ''cnn'' (Some ''critic.pth'')
     = Inr example_agent
   \<and> later example_agent
        (snd (projr (predict example_numerics example_agent example_obs [1 / 2] [1 / 4] False 0)))
   \<and> flat (snd (projr (predict example_numerics example_agent example_obs [1 / 2] [1 / 4] False 0)))
       = False
   \<and> to_batch
        (snd (projr (predict example_numerics example_agent example_obs [1 / 2] [1 / 4] False 0)))
        example_obs
       = expand_dims example_obs"
proof -
  have l: "later example_agent
        (snd (projr (predict example_numerics example_agent example_obs [1 / 2] [1 / 4] False 0)))"
    using later.predicted[OF later.same example_predict] by (simp add: example_predict)
  show ?thesis
    using flat_always_false[OF example_agent_constructed l, where state = example_obs]
      example_agent_constructed l
    by simp
qed

section \<open>Checkpoints\<close>

lemma paths_differ: "actor_path directory filename \<noteq> critic_path directory filename"
  by (simp add: actor_path_def critic_path_def)

lemma save_lookup:
  "save ag filename directory fs p
     = (if p = critic_path directory filename then Some (state_dict_of (critic ag))
        else if p = actor_path directory filename then Some (state_dict_of (body (actor ag)))
        else fs p)"
  by (simp add: save_def)

lemma load_state_dict_self:
  assumes "distinct (map fst (entries m))"
  shows "load_state_dict m (state_dict_of m) = Inr m"
  using load_state_dict_same_arch[OF refl assms] by simp

lemma example_critic_distinct: "distinct (map fst (entries (critic example_agent)))"
  using fresh_critic_distinct[OF DDPG_init_targets(3)[OF example_agent_constructed]] .

lemma example_actor_distinct: "distinct (map fst (entries (body (actor example_agent))))"
  by (simp add: example_actor distinct_ActorCNN_init)

lemma example_round_trip:
  "load example_agent ''ddpg'' ''models'' (save example_agent ''ddpg'' ''models'' Map.empty)
     = Inr example_agent"
proof -
  have a: "load_into (save example_agent ''ddpg'' ''models'' Map.empty)
             (actor_path ''models'' ''ddpg'') (body (actor example_agent))
           = Inr (body (actor example_agent))"
    using paths_differ[of "''models''" "''ddpg''"]
    by (simp add: load_into_def torch_load_def save_lookup
        load_state_dict_self[OF example_actor_distinct])
  have c: "load_into (save example_agent ''ddpg'' ''models'' Map.empty)
             (critic_path ''models'' ''ddpg'') (critic example_agent)
           = Inr (critic example_agent)"
    by (simp add: load_into_def torch_load_def save_lookup
        load_state_dict_self[OF example_critic_distinct])
  show ?thesis by (simp add: load_def a c)
qed

text \<open>
  C8, as the claim states it, fails on the names of the artifacts: \<^verbatim>\<open>save\<close> writes
  \<^verbatim>\<open>models/ddpg_actor.pth\<close> and \<^verbatim>\<open>models/ddpg_critic.pth\<close>, and nothing at
  \<^verbatim>\<open>models/ddpg_actor\<close> or \<^verbatim>\<open>models/ddpg_critic\<close>; \<^verbatim>\<open>load\<close> does not find
  artifacts stored under the names without the suffix. The artifact of the actor also
  holds the buffers of the batch normalisations, which are not parameters.
\<close>

theorem checkpoint_names_counterexample:
  "save example_agent ''ddpg'' ''models'' Map.empty ''models/ddpg_actor'' = None
   \<and> save example_agent ''ddpg'' ''models'' Map.empty ''models/ddpg_critic'' = None
   \<and> save example_agent ''ddpg'' ''models'' Map.empty ''models/ddpg_actor.pth''
       = Some (state_dict_of (body (actor example_agent)))
   \<and> save example_agent ''ddpg'' ''models'' Map.empty ''models/ddpg_critic.pth''
       = Some (state_dict_of (critic example_agent))
   \<and> load example_agent ''ddpg'' ''models''
        [''models/ddpg_actor'' \<mapsto> state_dict_of (body (actor example_agent)),
         ''models/ddpg_critic'' \<mapsto> state_dict_of (critic example_agent)]
       = Inl FileNotFoundError
   \<and> map_of (state_dict_of (body (actor example_agent))) ''bn1.running_mean''
       = Some \<lparr>shape = [32], data = replicate 32 0\<rparr>
   \<and> map_of (parameters (body (actor example_agent))) ''bn1.running_mean'' = None"
proof -
  have 1: "map_of (state_dict_of (body (actor example_agent))) ''bn1.running_mean''
       = Some \<lparr>shape = [32], data = replicate 32 0\<rparr>"
    by (simp add: example_actor ActorCNN_init_def layer_defs state_dict_of_def)
  have 2: "map_of (parameters (body (actor example_agent))) ''bn1.running_mean'' = None"
    by (simp add: example_actor ActorCNN_init_def layer_defs parameters_def)
  show ?thesis
    using 1 2
    by (simp add: save_lookup actor_path_def critic_path_def load_def load_into_def torch_load_def)
qed

text \<open>
  C8, amended. \<^verbatim>\<open>save(name, directory)\<close> writes exactly two artifacts, at
  \<^verbatim>\<open>{directory}/{name}_actor.pth\<close> and \<^verbatim>\<open>{directory}/{name}_critic.pth\<close>, holding the
  state dict of the live actor and of the live critic (their parameters and buffers);
  every other path is left as it was. A \<^verbatim>\<open>load(name, directory)\<close> that returns has read
  the two artifacts at these paths, has put their values into the live actor and the live
  critic, and has left the two targets, the two optimizers and the gradients unchanged.
\<close>

theorem checkpoint_files:
  assumes "load ag filename directory fs = Inr ag'"
  shows "actor_path directory filename = directory @ ''/'' @ filename @ ''_actor.pth''
       \<and> critic_path directory filename = directory @ ''/'' @ filename @ ''_critic.pth''
       \<and> dom (save ag filename directory fs0)
           = dom fs0 \<union> {actor_path directory filename, critic_path directory filename}
       \<and> save ag filename directory fs0 (actor_path directory filename)
           = Some (state_dict_of (body (actor ag)))
       \<and> save ag filename directory fs0 (critic_path directory filename)
           = Some (state_dict_of (critic ag))
       \<and> (\<forall>p. p \<noteq> actor_path directory filename \<and> p \<noteq> critic_path directory filename
              \<longrightarrow> save ag filename directory fs0 p = fs0 p)
       \<and> (\<exists>sd_actor sd_critic.
             fs (actor_path directory filename) = Some sd_actor
           \<and> fs (critic_path directory filename) = Some sd_critic
           \<and> load_state_dict (body (actor ag)) sd_actor = Inr (body (actor ag'))
           \<and> load_state_dict (critic ag) sd_critic = Inr (critic ag')
           \<and> (\<forall>e \<in> set (entries (body (actor ag'))). map_of sd_actor (fst e) = Some (snd (snd e)))
           \<and> (\<forall>e \<in> set (entries (critic ag')). map_of sd_critic (fst e) = Some (snd (snd e))))
       \<and> actor_target ag' = actor_target ag \<and> critic_target ag' = critic_target ag
       \<and> actor_optimizer ag' = actor_optimizer ag \<and> critic_optimizer ag' = critic_optimizer ag
       \<and> grad (body (actor ag')) = grad (body (actor ag)) \<and> grad (critic ag') = grad (critic ag)"
proof -
  from assms obtain ab c where a: "load_into fs (actor_path directory filename) (body (actor ag)) = Inr ab"
    and c: "load_into fs (critic_path directory filename) (critic ag) = Inr c"
    and ag': "ag' = ag\<lparr>actor := (actor ag)\<lparr>body := ab\<rparr>, critic := c\<rparr>"
    by (rule load_Inr)
  from a obtain sda where sda: "fs (actor_path directory filename) = Some sda"
    "load_state_dict (body (actor ag)) sda = Inr ab"
    by (auto simp: load_into_def torch_load_def split: option.splits)
  from c obtain sdc where sdc: "fs (critic_path directory filename) = Some sdc"
    "load_state_dict (critic ag) sdc = Inr c"
    by (auto simp: load_into_def torch_load_def split: option.splits)
  have va: "\<forall>e \<in> set (entries ab). map_of sda (fst e) = Some (snd (snd e))"
    using load_state_dict_values[OF sda(2)] by auto
  have vc: "\<forall>e \<in> set (entries c). map_of sdc (fst e) = Some (snd (snd e))"
    using load_state_dict_values[OF sdc(2)] by auto
  have ld: "\<exists>sd_actor sd_critic.
             fs (actor_path directory filename) = Some sd_actor
           \<and> fs (critic_path directory filename) = Some sd_critic
           \<and> load_state_dict (body (actor ag)) sd_actor = Inr (body (actor ag'))
           \<and> load_state_dict (critic ag) sd_critic = Inr (critic ag')
           \<and> (\<forall>e \<in> set (entries (body (actor ag'))). map_of sd_actor (fst e) = Some (snd (snd e)))
           \<and> (\<forall>e \<in> set (entries (critic ag')). map_of sd_critic (fst e) = Some (snd (snd e)))"
    using sda sdc va vc by (intro exI[of _ sda] exI[of _ sdc]) (simp add: ag')
  have dm: "dom (save ag filename directory fs0)
           = dom fs0 \<union> {actor_path directory filename, critic_path directory filename}"
    by (auto simp: save_def)
  have g: "grad (body (actor ag')) = grad (body (actor ag))" "grad (critic ag') = grad (critic ag)"
    using load_state_dict_keeps(2)[OF sda(2)] load_state_dict_keeps(2)[OF sdc(2)]
    by (simp_all add: ag')
  show ?thesis
    using ld dm g paths_differ[of directory filename]
    by (simp add: save_lookup ag' actor_path_def critic_path_def)
qed

theorem checkpoint_files_witness:
  "load example_agent ''ddpg'' ''models'' (save example_agent ''ddpg'' ''models'' Map.empty)
     = Inr example_agent
   \<and> actor_path ''models'' ''ddpg'' = ''models/ddpg_actor.pth''
   \<and> critic_path ''models'' ''ddpg'' = ''models/ddpg_critic.pth''
   \<and> dom (save example_agent ''ddpg'' ''models'' Map.empty)
       = {''models/ddpg_actor.pth'', ''models/ddpg_critic.pth''}"
proof -
  have "dom (save example_agent ''ddpg'' ''models'' Map.empty)
           = dom (Map.empty :: filesystem)
             \<union> {actor_path ''models'' ''ddpg'', critic_path ''models'' ''ddpg''}"
    using checkpoint_files[OF example_round_trip, where ?fs0.0 = Map.empty] by (elim conjE)
  then show ?thesis
    using example_round_trip by (simp add: actor_path_def critic_path_def)
qed

section \<open>The gradient steps and the networks they touch\<close>

lemma actor_module_eqI:
  "cls a' = cls a \<Longrightarrow> max_action a' = max_action a \<Longrightarrow> body a' = body a
     \<Longrightarrow> (a' :: actor_module) = a"
  by simp

lemma accumulate_grad:
  "grad (accumulate g m)
     = (\<lambda>n. if n \<in> fst ` set (parameters m)
            then Some (case grad m n of None \<Rightarrow> g n | Some old \<Rightarrow> map2 (+) old (g n))
            else grad m n)"
  by (simp add: accumulate_def)

lemma zero_grad_grad:
  "grad (zero_grad b m) = (if b then Map.empty else map_option (map (\<lambda>v. 0)) \<circ> grad m)"
  by (simp add: zero_grad_def)

lemma accumulate_grad_cong:
  "grad m' = grad m \<Longrightarrow> parameters m' = parameters m
     \<Longrightarrow> grad (accumulate g (zero_grad b m')) = grad (accumulate g (zero_grad b m))"
  by (simp only: accumulate_grad zero_grad_grad zero_grad_keeps)

lemma zero_grad_cleared:
  "case grad (zero_grad b m) n of None \<Rightarrow> True | Some z \<Rightarrow> set z \<subseteq> {0}"
  by (auto simp: zero_grad_def split: option.splits)

text \<open>After the critic step.\<close>

lemma update_critic_effect:
  assumes w: "opt_params (critic_optimizer ag) = Critic"
    and u: "update_critic N discount smp nz ag = Inr ag1"
  shows "actor ag1 = actor ag"
    and "parameters (critic_target ag1) = parameters (critic_target ag)"
    and "parameters (body (actor_target ag1)) = parameters (body (actor_target ag))"
    and "grad (critic_target ag1) = grad (critic_target ag)"
    and "grad (body (actor_target ag1)) = grad (body (actor_target ag))"
    and "grad (critic ag1)
         = grad (accumulate
                   (grad_critic_loss N (critic ag) smp
                      (val (fst (projr (target_Q N discount smp nz ag)))) Critic)
                   (zero_grad (set_to_none N) (critic ag)))"
proof -
  from u obtain ag2 where b: "critic_backward N discount smp nz ag = Inr ag2"
    and s: "ag1 = critic_step N ag2"
    by (rule update_critic_Inr)
  note f = critic_backward_modules(2-8)[OF b]
  have w2: "opt_params (critic_optimizer ag2) = Critic" using f(7) w by simp
  have other: "nid \<noteq> Critic \<Longrightarrow> get_module nid ag1 = get_module nid ag2" for nid
    unfolding s critic_step_keeps(1) w2 by simp
  have mod: "nid \<noteq> Critic \<Longrightarrow> \<exists>m. parameters m = parameters (get_module nid ag)
        \<and> grad m = grad (get_module nid ag) \<and> (nid = Actor \<longrightarrow> m = get_module nid ag)
        \<and> get_module nid ag2 = m" for nid
    using critic_backward_modules(1)[OF b, of nid] w by (auto simp: Let_def)
  have "body (actor ag1) = body (actor ag)"
    using mod[of Actor] other[of Actor] by (simp add: get_module_def)
  moreover have "cls (actor ag1) = cls (actor ag)" "max_action (actor ag1) = max_action (actor ag)"
    by (simp_all add: s critic_step_keeps f)
  ultimately show "actor ag1 = actor ag" by (intro actor_module_eqI)
  show "parameters (critic_target ag1) = parameters (critic_target ag)"
    using mod[of CriticTarget] other[of CriticTarget] by (auto simp: get_module_def)
  show "parameters (body (actor_target ag1)) = parameters (body (actor_target ag))"
    using mod[of ActorTarget] other[of ActorTarget] by (auto simp: get_module_def)
  show "grad (critic_target ag1) = grad (critic_target ag)"
    using mod[of CriticTarget] other[of CriticTarget] by (auto simp: get_module_def)
  show "grad (body (actor_target ag1)) = grad (body (actor_target ag))"
    using mod[of ActorTarget] other[of ActorTarget] by (auto simp: get_module_def)
  from critic_backward_modules(1)[OF b, of Critic] obtain m where
    m: "parameters m = parameters (critic ag)" "grad m = grad (critic ag)"
    and g: "critic ag2 = accumulate
                              (grad_critic_loss N (critic ag) smp
                                 (val (fst (projr (target_Q N discount smp nz ag)))) Critic)
                              (zero_grad (set_to_none N) m)"
    using w by (auto simp: Let_def get_module_def)
  have "grad (critic ag1) = grad (critic ag2)"
    using critic_step_keeps(1)[of Critic N ag2] w2
    by (simp add: s get_module_def step_module_keeps)
  then show "grad (critic ag1)
         = grad (accumulate
                   (grad_critic_loss N (critic ag) smp
                      (val (fst (projr (target_Q N discount smp nz ag)))) Critic)
                   (zero_grad (set_to_none N) (critic ag)))"
    unfolding g using accumulate_grad_cong[OF m(2) m(1)] by simp
qed

lemma actor_backward_graph:
  assumes "actor_backward N smp nz ag = Inr ag2"
  shows "graph (fst (projr (actor_call N Actor (actor ag) nz (b_state smp) (b_dist smp)
                                  (b_angle smp) None))) \<subseteq> {Actor}"
proof -
  from assms obtain u a' where
    1: "actor_call N Actor (actor ag) nz (b_state smp) (b_dist smp) (b_angle smp) None = Inr (u, a')"
    by (rule actor_backward_Inr)
  show ?thesis using actor_call_body(3)[OF 1] by (simp add: 1)
qed

text \<open>After the actor step.\<close>

lemma update_actor_effect:
  assumes w: "opt_params (actor_optimizer ag) = Actor"
    and u: "update_actor N smp nz ag = Inr ag1"
  shows "parameters (critic ag1) = parameters (critic ag)"
    and "parameters (critic_target ag1) = parameters (critic_target ag)"
    and "parameters (body (actor_target ag1)) = parameters (body (actor_target ag))"
    and "critic_target ag1 = critic_target ag"
    and "body (actor_target ag1) = body (actor_target ag)"
    and "n \<in> fst ` set (parameters (critic ag)) \<Longrightarrow>
         grad (critic ag1) n
           = Some (case grad (critic ag) n of
                     None \<Rightarrow> grad_actor_loss N (critic ag) (actor ag) smp nz Critic n
                   | Some old \<Rightarrow> map2 (+) old (grad_actor_loss N (critic ag) (actor ag) smp nz Critic n))"
proof -
  from u obtain ag2 where b: "actor_backward N smp nz ag = Inr ag2"
    and s: "ag1 = actor_step N ag2"
    by (rule update_actor_Inr)
  note f = actor_backward_modules(2-8)[OF b]
  have w2: "opt_params (actor_optimizer ag2) = Actor" using f(6) w by simp
  have other: "nid \<noteq> Actor \<Longrightarrow> get_module nid ag1 = get_module nid ag2" for nid
    unfolding s actor_step_keeps(1) w2 by simp
  have tg: "nid = ActorTarget \<or> nid = CriticTarget \<Longrightarrow> get_module nid ag2 = get_module nid ag" for nid
    using actor_backward_modules(1)[OF b, of nid] w actor_backward_graph[OF b]
    by (auto simp: Let_def)
  show "critic_target ag1 = critic_target ag"
    using tg[of CriticTarget] other[of CriticTarget] by (simp add: get_module_def)
  then show "parameters (critic_target ag1) = parameters (critic_target ag)" by simp
  show "body (actor_target ag1) = body (actor_target ag)"
    using tg[of ActorTarget] other[of ActorTarget] by (simp add: get_module_def)
  then show "parameters (body (actor_target ag1)) = parameters (body (actor_target ag))" by simp
  from actor_backward_modules(1)[OF b, of Critic] obtain m where
    m: "parameters m = parameters (critic ag)" "grad m = grad (critic ag)"
    and g: "critic ag2 = accumulate (grad_actor_loss N (critic ag) (actor ag) smp nz Critic) m"
    using w by (auto simp: Let_def get_module_def)
  have c1: "critic ag1 = critic ag2" using other[of Critic] by (simp add: get_module_def)
  show "parameters (critic ag1) = parameters (critic ag)"
    by (simp add: c1 g accumulate_keeps m)
  assume "n \<in> fst ` set (parameters (critic ag))"
  then show "grad (critic ag1) n
           = Some (case grad (critic ag) n of
                     None \<Rightarrow> grad_actor_loss N (critic ag) (actor ag) smp nz Critic n
                   | Some old \<Rightarrow> map2 (+) old (grad_actor_loss N (critic ag) (actor ag) smp nz Critic n))"
    by (simp add: c1 g accumulate_grad m)
qed

section \<open>The soft update\<close>

lemma soft_update_parameters:
  "map (\<lambda>(n, k, t). (n, t)) (filter (\<lambda>(n, k, t). k = Parameter) (soft_update tau ps es))
     = map2 (\<lambda>p nt. (fst nt, blend tau (snd p) (snd nt))) ps
         (map (\<lambda>(n, k, t). (n, t)) (filter (\<lambda>(n, k, t). k = Parameter) es))
       @ drop (length ps) (map (\<lambda>(n, k, t). (n, t)) (filter (\<lambda>(n, k, t). k = Parameter) es))"
  by (induction tau ps es rule: soft_update.induct) simp_all

lemma soft_update_module_parameters:
  assumes "length (parameters live) = length (parameters tgt)"
  shows "parameters (soft_update_module tau live tgt)
     = map2 (\<lambda>p nt. (fst nt, blend tau (snd p) (snd nt))) (parameters live) (parameters tgt)"
  using assms soft_update_parameters[of tau "parameters live" "entries tgt"]
  by (simp add: soft_update_module_def parameters_def)

lemma soft_update_module_nth:
  assumes "length (parameters live) = length (parameters tgt)" and "i < length (parameters tgt)"
  shows "fst (parameters (soft_update_module tau live tgt) ! i) = fst (parameters tgt ! i)"
    and "shape (snd (parameters (soft_update_module tau live tgt) ! i))
           = shape (snd (parameters tgt ! i))"
    and "data (snd (parameters (soft_update_module tau live tgt) ! i))
           = map2 (\<lambda>x y. tau * x + (1 - tau) * y)
               (data (snd (parameters live ! i))) (data (snd (parameters tgt ! i)))"
  using assms by (simp_all add: soft_update_module_parameters blend_def)

lemma soft_update_module_length:
  assumes "length (parameters live) = length (parameters tgt)"
  shows "length (parameters (soft_update_module tau live tgt)) = length (parameters tgt)"
  using assms by (simp add: soft_update_module_parameters)

lemma soft_update_module_buffers:
  "buffers (soft_update_module tau live tgt) = buffers tgt"
proof -
  have "map (\<lambda>(n, k, t). (n, t)) (filter (\<lambda>(n, k, t). k = Buffer) (soft_update tau ps es))
      = map (\<lambda>(n, k, t). (n, t)) (filter (\<lambda>(n, k, t). k = Buffer) es)" for ps es
    by (induction tau ps es rule: soft_update.induct) simp_all
  then show ?thesis by (simp add: soft_update_module_def buffers_def)
qed

lemma arch_parameters_length:
  assumes "arch m' = arch m"
  shows "length (parameters m') = length (parameters m)"
proof -
  have "length (parameters x) = length (filter (\<lambda>(n, k, s). k = Parameter) (arch x))" for x
    by (simp add: parameters_def arch_def filter_map comp_def case_prod_unfold)
  then show ?thesis using assms by simp
qed

lemma later_same_arch:
  assumes "DDPG_init fs init sdim action_dim max_act net_type critic_chkp = Inr ag0"
    and "later ag0 ag"
  shows "arch (critic_target ag) = arch (critic ag)"
    and "arch (body (actor_target ag)) = arch (body (actor ag))"
    and "opt_params (actor_optimizer ag) = Actor"
    and "opt_params (critic_optimizer ag) = Critic"
proof -
  note fx = later_fixed[OF assms(2)]
  note c = fixed_constructed[OF assms(1)]
  have a: "arch (get_module nid ag) = arch (get_module nid ag0)" for nid
    by (rule fixed_arch[OF fx])
  have c0: "arch (get_module CriticTarget ag0) = arch (get_module Critic ag0)"
    "arch (get_module ActorTarget ag0) = arch (get_module Actor ag0)"
    using c(6,7) by (simp_all add: fixed_def)
  show "arch (critic_target ag) = arch (critic ag)"
    using a[of CriticTarget] a[of Critic] c0(1) by (simp add: get_module_simps)
  show "arch (body (actor_target ag)) = arch (body (actor ag))"
    using a[of ActorTarget] a[of Actor] c0(2) by (simp add: get_module_simps)
  show "opt_params (actor_optimizer ag) = Actor" using c(2) fx by (simp add: fixed_def)
  show "opt_params (critic_optimizer ag) = Critic" using c(3) fx by (simp add: fixed_def)
qed

text \<open>
  C2. In an iteration of \<^verbatim>\<open>train\<close> that completes, on an agent built by the constructor
  and used through its methods, the soft updates act on the state left by the critic step
  and the actor step: the live networks of the result are the ones after both steps, and
  each parameter tensor of \<^verbatim>\<open>critic_target\<close> and of \<^verbatim>\<open>actor_target\<close> keeps its name and
  shape and holds, element by element, \<open>tau * live + (1 - tau) * old\<close>, where \<open>live\<close> is
  the parameter of the live network after both steps and \<open>old\<close> the parameter of the
  target at the start of the iteration (the gradient steps do not touch it). No
  parameter is left out: live and target have as many parameters.
\<close>

theorem soft_update_rule:
  assumes "DDPG_init fs init sdim action_dim max_act net_type critic_chkp = Inr ag0"
    and "later ag0 ag"
    and "train_iteration N rb batch_size discount tau nz it ag = Inr ag'"
  shows "\<exists>ag1 ag2.
           update_critic N discount (sample_call rb it batch_size ag) (fst (nz it)) ag = Inr ag1
         \<and> update_actor N (sample_call rb it batch_size ag) (snd (nz it)) ag1 = Inr ag2
         \<and> ag' = soft_updates tau ag2
         \<and> actor ag' = actor ag2 \<and> critic ag' = critic ag2
         \<and> parameters (critic_target ag2) = parameters (critic_target ag)
         \<and> parameters (body (actor_target ag2)) = parameters (body (actor_target ag))
         \<and> length (parameters (critic ag')) = length (parameters (critic_target ag))
         \<and> length (parameters (critic_target ag')) = length (parameters (critic_target ag))
         \<and> length (parameters (body (actor ag'))) = length (parameters (body (actor_target ag)))
         \<and> length (parameters (body (actor_target ag')))
             = length (parameters (body (actor_target ag)))
         \<and> (\<forall>i < length (parameters (critic_target ag)).
               fst (parameters (critic_target ag') ! i) = fst (parameters (critic_target ag) ! i)
             \<and> shape (snd (parameters (critic_target ag') ! i))
                 = shape (snd (parameters (critic_target ag) ! i))
             \<and> data (snd (parameters (critic_target ag') ! i))
                 = map2 (\<lambda>x y. tau * x + (1 - tau) * y)
                     (data (snd (parameters (critic ag') ! i)))
                     (data (snd (parameters (critic_target ag) ! i))))
         \<and> (\<forall>i < length (parameters (body (actor_target ag))).
               fst (parameters (body (actor_target ag')) ! i)
                 = fst (parameters (body (actor_target ag)) ! i)
             \<and> shape (snd (parameters (body (actor_target ag')) ! i))
                 = shape (snd (parameters (body (actor_target ag)) ! i))
             \<and> data (snd (parameters (body (actor_target ag')) ! i))
                 = map2 (\<lambda>x y. tau * x + (1 - tau) * y)
                     (data (snd (parameters (body (actor ag')) ! i)))
                     (data (snd (parameters (body (actor_target ag)) ! i))))"
proof -
  let ?smp = "sample_call rb it batch_size ag"
  from assms(3) obtain ag1 ag2 where
    uc: "update_critic N discount ?smp (fst (nz it)) ag = Inr ag1"
    and ua: "update_actor N ?smp (snd (nz it)) ag1 = Inr ag2"
    and ag': "ag' = soft_updates tau ag2"
    by (rule train_iteration_Inr)
  note w = later_same_arch[OF assms(1,2)]
  have f1: "fixed ag1 = fixed ag" by (rule update_critic_fixed[OF uc])
  have f2: "fixed ag2 = fixed ag1" by (rule update_actor_fixed[OF ua])
  have w1: "opt_params (actor_optimizer ag1) = Actor"
    using fixed_fields(4)[OF f1] w(3) by simp
  note ec = update_critic_effect[OF w(4) uc]
  note ea = update_actor_effect[OF w1 ua]
  have pc: "parameters (critic_target ag2) = parameters (critic_target ag)"
    using ec(2) ea(2) by simp
  have pa: "parameters (body (actor_target ag2)) = parameters (body (actor_target ag))"
    using ec(3) ea(3) by simp
  have a2: "arch (get_module nid ag2) = arch (get_module nid ag)" for nid
    using fixed_arch[OF f2, of nid] fixed_arch[OF f1, of nid] by simp
  have lc: "length (parameters (critic ag2)) = length (parameters (critic_target ag2))"
    using a2[of Critic] a2[of CriticTarget] w(1)
    by (intro arch_parameters_length) (simp add: get_module_def)
  have la: "length (parameters (body (actor ag2))) = length (parameters (body (actor_target ag2)))"
    using a2[of Actor] a2[of ActorTarget] w(2)
    by (intro arch_parameters_length) (simp add: get_module_def)
  have live: "actor ag' = actor ag2" "critic ag' = critic ag2"
    by (simp_all add: ag' soft_updates_keeps)
  have ct: "critic_target ag' = soft_update_module tau (critic ag2) (critic_target ag2)"
    using soft_updates_keeps(1)[of CriticTarget tau ag2] by (simp add: ag' get_module_def)
  have at: "body (actor_target ag')
      = soft_update_module tau (body (actor ag2)) (body (actor_target ag2))"
    using soft_updates_keeps(1)[of ActorTarget tau ag2] by (simp add: ag' get_module_def)
  have nc: "\<forall>i < length (parameters (critic_target ag)).
               fst (parameters (critic_target ag') ! i) = fst (parameters (critic_target ag) ! i)
             \<and> shape (snd (parameters (critic_target ag') ! i))
                 = shape (snd (parameters (critic_target ag) ! i))
             \<and> data (snd (parameters (critic_target ag') ! i))
                 = map2 (\<lambda>x y. tau * x + (1 - tau) * y)
                     (data (snd (parameters (critic ag') ! i)))
                     (data (snd (parameters (critic_target ag) ! i)))"
    unfolding ct live using soft_update_module_nth[OF lc, of _ tau] by (simp add: pc)
  have na: "\<forall>i < length (parameters (body (actor_target ag))).
               fst (parameters (body (actor_target ag')) ! i)
                 = fst (parameters (body (actor_target ag)) ! i)
             \<and> shape (snd (parameters (body (actor_target ag')) ! i))
                 = shape (snd (parameters (body (actor_target ag)) ! i))
             \<and> data (snd (parameters (body (actor_target ag')) ! i))
                 = map2 (\<lambda>x y. tau * x + (1 - tau) * y)
                     (data (snd (parameters (body (actor ag')) ! i)))
                     (data (snd (parameters (body (actor_target ag)) ! i)))"
    unfolding at live using soft_update_module_nth[OF la, of _ tau] by (simp add: pa)
  have l1: "length (parameters (critic ag')) = length (parameters (critic_target ag))"
    using lc pc live by simp
  have l2: "length (parameters (critic_target ag')) = length (parameters (critic_target ag))"
    unfolding ct using soft_update_module_length[OF lc] pc by simp
  have l3: "length (parameters (body (actor ag'))) = length (parameters (body (actor_target ag)))"
    using la pa live by simp
  have l4: "length (parameters (body (actor_target ag')))
             = length (parameters (body (actor_target ag)))"
    unfolding at using soft_update_module_length[OF la] pa by simp
  show ?thesis
    using uc ua ag' live pc pa l1 l2 l3 l4 nc na by blast
qed

section \<open>Iterations that complete\<close>

lemma target_Q_succeeds:
  assumes "actor_call N ActorTarget (actor_target ag) nz (b_next_state smp) (b_next_dist smp)
        (b_next_angle smp) None = Inr (u, a')"
    and "CriticCNN_forward N CriticTarget (critic_target ag) (b_next_state smp) u = Inr (q, ct)"
    and "length (b_done smp) = length (val q)" and "length (b_reward smp) = length (val q)"
  shows "target_Q N discount smp nz ag
     = Inr (\<lparr>val = map2 (+) (b_reward smp)
                     (map2 (*) (map (\<lambda>v. v * discount) (map (\<lambda>d. 1 - d) (b_done smp))) (val q)),
             graph = {}\<rparr>,
            ag\<lparr>actor_target := a', critic_target := ct\<rparr>)"
  using assms
  by (simp add: target_Q_def Let_def ew_def scale_def leaf_def detach_def)

lemma critic_backward_succeeds:
  assumes "target_Q N discount smp nz ag = Inr (tq, ag1)"
    and "CriticCNN_forward N Critic (critic ag1) (b_state smp) (leaf (b_action smp)) = Inr (cq, c')"
  shows "\<exists>ag2. critic_backward N discount smp nz ag = Inr ag2"
proof -
  have "graph cq = {Critic}"
    using CriticCNN_forward_Inr(2)[OF assms(2)] by (simp add: leaf_def)
  then have "graph (mse_loss cq tq) \<noteq> {}" by (simp add: mse_loss_graph)
  then show ?thesis
    using assms by (simp add: critic_backward_def backward_def)
qed

lemma actor_backward_succeeds:
  assumes "actor_call N Actor (actor ag) nz (b_state smp) (b_dist smp) (b_angle smp) None
             = Inr (u, a')"
    and "CriticCNN_forward N Critic (critic ag) (b_state smp) u = Inr (q, c')"
  shows "\<exists>ag2. actor_backward N smp nz ag = Inr ag2"
proof -
  have "graph (actor_loss_of q) \<noteq> {}"
    using CriticCNN_forward_Inr(2)[OF assms(2)] by (simp add: actor_loss_of_def)
  then show ?thesis
    using assms by (simp add: actor_backward_def backward_def)
qed

lemma example_critic_forward:
  "CriticCNN_forward example_numerics self m st acts
     = Inr (\<lparr>val = replicate (length (val acts)) 2, graph = insert self (graph acts)\<rparr>,
            track_running_stats (batch_stats example_numerics m st) m)"
  by (simp add: CriticCNN_forward_def example_numerics_def)

lemma example_actor_call_batch:
  assumes "cls a = ActorCNN"
  shows "actor_call example_numerics self a nz
           \<lparr>shape = [2, 3, 120, 160], data = xs\<rparr> [d1, d2] [g1, g2] None
     = Inr (\<lparr>val = [[1 / 2 + max_action a * (1 / 2), 6 * d1 + 2 * g1],
                     [1 / 2 + max_action a * (1 / 2), 6 * d2 + 2 * g2]],
             graph = {self}\<rparr>,
            a\<lparr>body := track_running_stats
                 (batch_stats example_numerics (body a) \<lparr>shape = [2, 3, 120, 160], data = xs\<rparr>)
                 (body a)\<rparr>)"
proof -
  have n: "actor_net example_numerics (body a) nz \<lparr>shape = [2, 3, 120, 160], data = xs\<rparr>
      = Inr [[0, 0], [0, 0]]"
    by (simp add: example_numerics_def numeral_2_eq_2)
  have c: "angle_control_commands example_numerics = (\<lambda>d g v. 6 * d + 2 * g)"
    by (simp add: example_numerics_def)
  show ?thesis
    unfolding actor_call_def ActorCNN_forward_def ActorCNN_head_def n c
    using assms
    by (simp add: squash_def squash_row_def sigm_zero add_heading_def broadcast_def heading_row_def)
qed

lemma example_target_Q:
  assumes "cls (actor_target ag) = ActorCNN"
  shows "target_Q example_numerics discount example_batch nz ag
     = Inr (\<lparr>val = [1 + (1 - 0) * discount * 2, 3 + (1 - 1) * discount * 2], graph = {}\<rparr>,
            ag\<lparr>actor_target := (actor_target ag)
                   \<lparr>body := track_running_stats
                       (batch_stats example_numerics (body (actor_target ag))
                          (b_next_state example_batch))
                       (body (actor_target ag))\<rparr>,
               critic_target := track_running_stats
                   (batch_stats example_numerics (critic_target ag) (b_next_state example_batch))
                   (critic_target ag)\<rparr>)"
proof -
  have b: "b_next_state example_batch
      = \<lparr>shape = [2, 3, 120, 160], data = replicate (2 * 3 * 120 * 160) 0\<rparr>"
    "b_next_dist example_batch = [1 / 4, 0]" "b_next_angle example_batch = [0, 0]"
    "b_done example_batch = [0, 1]" "b_reward example_batch = [1, 3]"
    by (simp_all add: example_batch_def)
  note ac = example_actor_call_batch[OF assms, of ActorTarget nz "replicate (2 * 3 * 120 * 160) 0"
      "1 / 4" 0 0 0]
  show ?thesis
    by (subst target_Q_succeeds[OF ac[folded b(1-3)] example_critic_forward])
       (simp_all add: b numeral_2_eq_2)
qed

lemma example_train_iteration:
  assumes "cls (actor ag) = ActorCNN" and "cls (actor_target ag) = ActorCNN"
  shows "\<exists>ag'. train_iteration example_numerics example_rb batch_size discount tau nz it ag = Inr ag'"
proof -
  let ?N = example_numerics
  have smp: "sample_call example_rb it batch_size ag = example_batch"
    by (simp add: sample_call_def example_rb_def)
  have b: "b_state example_batch
      = \<lparr>shape = [2, 3, 120, 160], data = replicate (2 * 3 * 120 * 160) 0\<rparr>"
    "b_dist example_batch = [1 / 2, 0]" "b_angle example_batch = [1 / 4, 0]"
    by (simp_all add: example_batch_def)
  obtain ag2 where cb: "critic_backward ?N discount example_batch (fst (nz it)) ag = Inr ag2"
    using critic_backward_succeeds[OF example_target_Q[OF assms(2)] example_critic_forward]
    by blast
  then have uc: "update_critic ?N discount example_batch (fst (nz it)) ag = Inr (critic_step ?N ag2)"
    by (simp add: update_critic_def)
  have "cls (actor (critic_step ?N ag2)) = ActorCNN"
    using fixed_fields(2)[OF update_critic_fixed[OF uc]] assms(1) by simp
  note ac = example_actor_call_batch[OF this, of Actor "snd (nz it)"
      "replicate (2 * 3 * 120 * 160) 0" "1 / 2" 0 "1 / 4" 0]
  obtain ag3 where ab: "actor_backward ?N example_batch (snd (nz it)) (critic_step ?N ag2) = Inr ag3"
    using actor_backward_succeeds[OF ac[folded b] example_critic_forward] by blast
  then have "update_actor ?N example_batch (snd (nz it)) (critic_step ?N ag2)
      = Inr (actor_step ?N ag3)"
    by (simp add: update_actor_def)
  then show ?thesis
    using uc by (simp add: train_iteration_def smp)
qed

lemma example_agent_classes:
  "cls (actor example_agent) = ActorCNN" "cls (actor_target example_agent) = ActorCNN"
proof -
  show "cls (actor example_agent) = ActorCNN"
    using fixed_constructed(4)[OF example_agent_constructed] by (simp add: fixed_def)
  then show "cls (actor_target example_agent) = ActorCNN"
    using fixed_constructed(5)[OF example_agent_constructed] by (simp add: fixed_def)
qed

theorem soft_update_rule_witness:
  "DDPG_init example_fs example_init [3, 120, 160] 2 1 ''cnn'' (Some ''critic.pth'')
     = Inr example_agent
   \<and> later example_agent example_agent
   \<and> train_iteration example_numerics example_rb 2 (99 / 100) (1 / 1000) (\<lambda>it. (0, 0)) 0
        example_agent
       = Inr (projr (train_iteration example_numerics example_rb 2 (99 / 100) (1 / 1000)
                       (\<lambda>it. (0, 0)) 0 example_agent))
   \<and> actor (projr (train_iteration example_numerics example_rb 2 (99 / 100) (1 / 1000)
                     (\<lambda>it. (0, 0)) 0 example_agent))
       = actor (projr (update_actor example_numerics example_batch 0
                  (projr (update_critic example_numerics (99 / 100) example_batch 0 example_agent))))
   \<and> length (parameters (critic_target
               (projr (train_iteration example_numerics example_rb 2 (99 / 100) (1 / 1000)
                         (\<lambda>it. (0, 0)) 0 example_agent))))
       = length (parameters (critic_target example_agent))"
proof -
  let ?R = "projr (train_iteration example_numerics example_rb 2 (99 / 100) (1 / 1000)
                       (\<lambda>it. (0, 0)) 0 example_agent)"
  have t: "train_iteration example_numerics example_rb 2 (99 / 100) (1 / 1000) (\<lambda>it. (0, 0)) 0
        example_agent = Inr ?R"
    using example_train_iteration[OF example_agent_classes] by (metis sum.sel(2))
  have smp: "sample_call example_rb 0 2 example_agent = example_batch"
    by (simp add: sample_call_def example_rb_def)
  from soft_update_rule[OF example_agent_constructed later.same t] obtain ag1 ag2 where
    1: "update_critic example_numerics (99 / 100) example_batch 0 example_agent = Inr ag1"
    and 2: "update_actor example_numerics example_batch 0 ag1 = Inr ag2"
    and 3: "actor ?R = actor ag2"
    and 4: "length (parameters (critic_target ?R)) = length (parameters (critic_target example_agent))"
    unfolding smp by auto
  show ?thesis
    using example_agent_constructed later.same t 1 2 3 4 by simp
qed

text \<open>
  C1. In an iteration (up to the backward pass of the critic loss), on an agent built by
  the constructor and used through its methods: with \<open>u\<close> the action of
  \<^verbatim>\<open>actor_target\<close> on the next states, distances and angles and \<open>q\<close> the value of
  \<^verbatim>\<open>critic_target\<close> on the next states and \<open>u\<close>, the target has one entry per sampled
  transition, \<open>reward + discount * (1 - done) * q\<close>. Its graph is empty: the backward
  pass of the critic loss leaves the gradients of both target networks as they were, and
  the gradient it adds to the critic is computed from the value of the target alone.
\<close>

theorem bootstrap_target:
  assumes "DDPG_init fs init sdim action_dim max_act net_type critic_chkp = Inr ag0"
    and "later ag0 ag"
    and "critic_backward N discount smp nz ag = Inr ag2"
    and "u = fst (projr (actor_call N ActorTarget (actor_target ag) nz (b_next_state smp)
                           (b_next_dist smp) (b_next_angle smp) None))"
    and "q = fst (projr (CriticCNN_forward N CriticTarget (critic_target ag) (b_next_state smp) u))"
    and "tq = fst (projr (target_Q N discount smp nz ag))"
  shows "length (val tq) = length (b_reward smp)
       \<and> length (b_done smp) = length (b_reward smp)
       \<and> length (val q) = length (b_reward smp)
       \<and> (\<forall>i < length (b_reward smp).
             val tq ! i = b_reward smp ! i + discount * (1 - b_done smp ! i) * val q ! i)
       \<and> graph tq = {}
       \<and> grad (critic_target ag2) = grad (critic_target ag)
       \<and> grad (body (actor_target ag2)) = grad (body (actor_target ag))
       \<and> grad (critic ag2)
           = grad (accumulate (grad_critic_loss N (critic ag) smp (val tq) Critic)
                     (zero_grad (set_to_none N) (critic ag)))"
proof -
  from assms(3) obtain tq' ag1 where tq': "target_Q N discount smp nz ag = Inr (tq', ag1)"
    by (rule critic_backward_Inr)
  from tq' obtain u' a' q' c' where
    1: "actor_call N ActorTarget (actor_target ag) nz (b_next_state smp) (b_next_dist smp)
        (b_next_angle smp) None = Inr (u', a')"
    and 2: "CriticCNN_forward N CriticTarget (critic_target ag) (b_next_state smp) u' = Inr (q', c')"
    and 3: "length (b_done smp) = length (val q')" "length (b_reward smp) = length (val q')"
    and 4: "val tq' = map2 (+) (b_reward smp)
                    (map2 (*) (map (\<lambda>v. v * discount) (map (\<lambda>d. 1 - d) (b_done smp))) (val q'))"
    and 5: "graph tq' = {}"
    by (rule target_Q_Inr)
  have [simp]: "u = u'" using assms(4) 1 by simp
  have [simp]: "q = q'" using assms(5) 2 by simp
  have [simp]: "tq = tq'" using assms(6) tq' by simp
  have len: "length (val tq') = length (b_reward smp)"
    using 3 4 by simp
  have el: "\<forall>i < length (b_reward smp).
             val tq' ! i = b_reward smp ! i + discount * (1 - b_done smp ! i) * val q' ! i"
    using 3 4 by (simp add: mult.commute)
  note w = later_same_arch(4)[OF assms(1,2)]
  have uc: "update_critic N discount smp nz ag = Inr (critic_step N ag2)"
    using assms(3) by (simp add: update_critic_def)
  note e = update_critic_effect(4-6)[OF w uc]
  have w2: "opt_params (critic_optimizer ag2) = Critic"
    using critic_backward_modules(8)[OF assms(3)] w by simp
  have same: "grad (get_module nid (critic_step N ag2)) = grad (get_module nid ag2)" for nid
    unfolding critic_step_keeps(1) by (simp add: step_module_keeps)
  have g1: "grad (critic_target ag2) = grad (critic_target ag)"
    using e(1) same[of CriticTarget] by (simp add: get_module_simps)
  have g2: "grad (body (actor_target ag2)) = grad (body (actor_target ag))"
    using e(2) same[of ActorTarget] by (simp add: get_module_simps)
  have g3: "grad (critic ag2)
           = grad (accumulate (grad_critic_loss N (critic ag) smp (val tq') Critic)
                     (zero_grad (set_to_none N) (critic ag)))"
    using e(3) same[of Critic] tq' by (simp add: get_module_simps)
  show ?thesis
    using len 3 el 5 g1 g2 g3 by simp
qed

lemma example_critic_backward:
  "critic_backward example_numerics (99 / 100) example_batch 0 example_agent
     = Inr (projr (critic_backward example_numerics (99 / 100) example_batch 0 example_agent))"
  using critic_backward_succeeds[OF example_target_Q[OF example_agent_classes(2)]
      example_critic_forward]
  by (metis sum.sel(2))

theorem bootstrap_target_witness:
  "DDPG_init example_fs example_init [3, 120, 160] 2 1 ''cnn'' (Some ''critic.pth'')
     = Inr example_agent
   \<and> later example_agent example_agent
   \<and> critic_backward example_numerics (99 / 100) example_batch 0 example_agent
       = Inr (projr (critic_backward example_numerics (99 / 100) example_batch 0 example_agent))
   \<and> val (fst (projr (target_Q example_numerics (99 / 100) example_batch 0 example_agent)))
       = [298 / 100, 3]
   \<and> b_reward example_batch = [1, 3] \<and> b_done example_batch = [0, 1]
   \<and> val (fst (projr (CriticCNN_forward example_numerics CriticTarget
          (critic_target example_agent) (b_next_state example_batch)
          (fst (projr (actor_call example_numerics ActorTarget (actor_target example_agent) 0
             (b_next_state example_batch) (b_next_dist example_batch)
             (b_next_angle example_batch) None))))))
       = [2, 2]
   \<and> graph (fst (projr (target_Q example_numerics (99 / 100) example_batch 0 example_agent))) = {}
   \<and> grad (critic_target
        (projr (critic_backward example_numerics (99 / 100) example_batch 0 example_agent)))
       = grad (critic_target example_agent)"
proof -
  note bt = bootstrap_target[OF example_agent_constructed later.same example_critic_backward
      refl refl refl]
  have g: "graph (fst (projr (target_Q example_numerics (99 / 100) example_batch 0 example_agent))) = {}"
    using bt by (elim conjE)
  have gc: "grad (critic_target
        (projr (critic_backward example_numerics (99 / 100) example_batch 0 example_agent)))
       = grad (critic_target example_agent)"
    using bt by (elim conjE)
  have v: "val (fst (projr (target_Q example_numerics (99 / 100) example_batch 0 example_agent)))
       = [298 / 100, 3]"
    by (simp add: example_target_Q[OF example_agent_classes(2)])
  have q: "val (fst (projr (CriticCNN_forward example_numerics CriticTarget
          (critic_target example_agent) (b_next_state example_batch)
          (fst (projr (actor_call example_numerics ActorTarget (actor_target example_agent) 0
             (b_next_state example_batch) (b_next_dist example_batch)
             (b_next_angle example_batch) None))))))
       = [2, 2]"
    using example_actor_call_batch[OF example_agent_classes(2), of ActorTarget 0
        "replicate (2 * 3 * 120 * 160) 0" "1 / 4" 0 0 0]
    by (simp add: example_critic_forward example_batch_def numeral_2_eq_2)
  have b: "b_reward example_batch = [1, 3]" "b_done example_batch = [0, 1]"
    by (simp_all add: example_batch_def)
  show ?thesis
    using example_agent_constructed later.same example_critic_backward g gc v q b by simp
qed

text \<open>
  C6. In an iteration, on an agent built by the constructor and used through its methods:
  the critic update (target, loss, \<^verbatim>\<open>zero_grad\<close>, \<^verbatim>\<open>backward\<close>, \<^verbatim>\<open>step\<close>) leaves the
  actor as it was, parameters included; the actor update leaves every parameter of the
  critic as it was, although its backward pass adds the gradient of the actor loss to the
  gradient slot of every parameter of the critic. What a critic step applies is the
  gradient of the critic loss alone: \<^verbatim>\<open>critic_optimizer.zero_grad()\<close> clears the slots
  (to \<^verbatim>\<open>None\<close> or to zeros) before the backward pass, whatever an earlier actor update
  left in them.
\<close>

theorem gradient_isolation:
  assumes "DDPG_init fs init sdim action_dim max_act net_type critic_chkp = Inr ag0"
    and "later ag0 ag"
    and "update_critic N discount smp nz ag = Inr ag1"
    and "update_actor N smp nz' ag1 = Inr ag2"
  shows "actor ag1 = actor ag
       \<and> parameters (body (actor ag1)) = parameters (body (actor ag))
       \<and> parameters (critic ag2) = parameters (critic ag1)
       \<and> (\<forall>n \<in> fst ` set (parameters (critic ag1)).
             grad (critic ag2) n
               = Some (case grad (critic ag1) n of
                         None \<Rightarrow> grad_actor_loss N (critic ag1) (actor ag1) smp nz' Critic n
                       | Some old \<Rightarrow>
                           map2 (+) old (grad_actor_loss N (critic ag1) (actor ag1) smp nz' Critic n)))
       \<and> grad (critic ag1)
           = grad (accumulate
                     (grad_critic_loss N (critic ag) smp
                        (val (fst (projr (target_Q N discount smp nz ag)))) Critic)
                     (zero_grad (set_to_none N) (critic ag)))
       \<and> (\<forall>n. grad (zero_grad (set_to_none N) (critic ag)) n = None
              \<or> (\<exists>z. grad (zero_grad (set_to_none N) (critic ag)) n = Some z \<and> set z \<subseteq> {0}))"
proof -
  note w = later_same_arch(3,4)[OF assms(1,2)]
  note ec = update_critic_effect[OF w(2) assms(3)]
  have w1: "opt_params (actor_optimizer ag1) = Actor"
    using fixed_fields(4)[OF update_critic_fixed[OF assms(3)]] w(1) by simp
  note ea = update_actor_effect[OF w1 assms(4)]
  have cl: "\<forall>n. grad (zero_grad (set_to_none N) (critic ag)) n = None
              \<or> (\<exists>z. grad (zero_grad (set_to_none N) (critic ag)) n = Some z \<and> set z \<subseteq> {0})"
  proof
    fix n
    show "grad (zero_grad (set_to_none N) (critic ag)) n = None
              \<or> (\<exists>z. grad (zero_grad (set_to_none N) (critic ag)) n = Some z \<and> set z \<subseteq> {0})"
      using zero_grad_cleared[of "set_to_none N" "critic ag" n]
      by (cases "grad (zero_grad (set_to_none N) (critic ag)) n") simp_all
  qed
  have fl: "\<forall>n \<in> fst ` set (parameters (critic ag1)).
             grad (critic ag2) n
               = Some (case grad (critic ag1) n of
                         None \<Rightarrow> grad_actor_loss N (critic ag1) (actor ag1) smp nz' Critic n
                       | Some old \<Rightarrow>
                           map2 (+) old (grad_actor_loss N (critic ag1) (actor ag1) smp nz' Critic n))"
    using ea(6) by blast
  show ?thesis
    using ec(1,6) ea(1) fl cl by simp
qed

lemma example_update_critic:
  "update_critic example_numerics (99 / 100) example_batch 0 example_agent
     = Inr (projr (update_critic example_numerics (99 / 100) example_batch 0 example_agent))"
proof -
  obtain ag2 where "critic_backward example_numerics (99 / 100) example_batch 0 example_agent = Inr ag2"
    using example_critic_backward by blast
  then show ?thesis by (simp add: update_critic_def)
qed

lemma example_update_actor:
  "update_actor example_numerics example_batch 0
      (projr (update_critic example_numerics (99 / 100) example_batch 0 example_agent))
     = Inr (projr (update_actor example_numerics example_batch 0
              (projr (update_critic example_numerics (99 / 100) example_batch 0 example_agent))))"
proof -
  let ?a1 = "projr (update_critic example_numerics (99 / 100) example_batch 0 example_agent)"
  have c: "cls (actor ?a1) = ActorCNN"
    using fixed_fields(2)[OF update_critic_fixed[OF example_update_critic]] example_agent_classes(1)
    by simp
  have b: "b_state example_batch
      = \<lparr>shape = [2, 3, 120, 160], data = replicate (2 * 3 * 120 * 160) 0\<rparr>"
    "b_dist example_batch = [1 / 2, 0]" "b_angle example_batch = [1 / 4, 0]"
    by (simp_all add: example_batch_def)
  note ac = example_actor_call_batch[OF c, of Actor 0 "replicate (2 * 3 * 120 * 160) 0"
      "1 / 2" 0 "1 / 4" 0]
  obtain ag3 where "actor_backward example_numerics example_batch 0 ?a1 = Inr ag3"
    using actor_backward_succeeds[OF ac[folded b] example_critic_forward] by blast
  then show ?thesis by (simp add: update_actor_def)
qed

theorem gradient_isolation_witness:
  "DDPG_init example_fs example_init [3, 120, 160] 2 1 ''cnn'' (Some ''critic.pth'')
     = Inr example_agent
   \<and> later example_agent example_agent
   \<and> update_critic example_numerics (99 / 100) example_batch 0 example_agent
       = Inr (projr (update_critic example_numerics (99 / 100) example_batch 0 example_agent))
   \<and> update_actor example_numerics example_batch 0
        (projr (update_critic example_numerics (99 / 100) example_batch 0 example_agent))
       = Inr (projr (update_actor example_numerics example_batch 0
                (projr (update_critic example_numerics (99 / 100) example_batch 0 example_agent))))
   \<and> actor (projr (update_critic example_numerics (99 / 100) example_batch 0 example_agent))
       = actor example_agent
   \<and> parameters (critic (projr (update_actor example_numerics example_batch 0
          (projr (update_critic example_numerics (99 / 100) example_batch 0 example_agent)))))
       = parameters (critic
          (projr (update_critic example_numerics (99 / 100) example_batch 0 example_agent)))"
proof -
  note gi = gradient_isolation[OF example_agent_constructed later.same example_update_critic
      example_update_actor]
  have 1: "actor (projr (update_critic example_numerics (99 / 100) example_batch 0 example_agent))
       = actor example_agent"
    using gi by (elim conjE)
  have 2: "parameters (critic (projr (update_actor example_numerics example_batch 0
          (projr (update_critic example_numerics (99 / 100) example_batch 0 example_agent)))))
       = parameters (critic
          (projr (update_critic example_numerics (99 / 100) example_batch 0 example_agent)))"
    using gi by (elim conjE)
  show ?thesis
    using example_agent_constructed later.same example_update_critic example_update_actor 1 2
    by simp
qed

end
